theory Spec2Isabelle
  imports Main "HOL-Library.Multiset"
begin

section \<open>Python strings and builtins\<close>

text \<open>
  A Python \<open>str\<close> is modelled as a \<open>string\<close>; every \<open>char\<close> stands for one code
  point (so the model covers code points below 256), and \<open>length\<close> is Python's \<open>len\<close>.
\<close>

definition py_isspace :: "char \<Rightarrow> bool" where
  "py_isspace c =
     (let n = (of_char c :: nat)
      in (9 \<le> n \<and> n \<le> 13) \<or> (28 \<le> n \<and> n \<le> 32) \<or> n = 133 \<or> n = 160)"

definition strip :: "string \<Rightarrow> string" where
  "strip s = rev (dropWhile py_isspace (rev (dropWhile py_isspace s)))"

definition lower_char :: "char \<Rightarrow> char" where
  "lower_char c =
     (let n = (of_char c :: nat)
      in if (65 \<le> n \<and> n \<le> 90) \<or> (192 \<le> n \<and> n \<le> 222 \<and> n \<noteq> 215)
         then char_of (n + 32) else c)"

definition lower :: "string \<Rightarrow> string" where
  "lower s = map lower_char s"

fun startswith :: "string \<Rightarrow> string \<Rightarrow> bool" where
  "startswith s [] = True"
| "startswith [] (p # ps) = False"
| "startswith (c # cs) (p # ps) = (c = p \<and> startswith cs ps)"

text \<open>\<open>contains s w\<close> is Python's \<open>w in s\<close> on strings.\<close>

fun contains :: "string \<Rightarrow> string \<Rightarrow> bool" where
  "contains [] w = (w = [])"
| "contains (c # cs) w = (startswith (c # cs) w \<or> contains cs w)"

definition digit_char :: "nat \<Rightarrow> char" where
  "digit_char d = char_of (48 + d)"

fun str_nat :: "nat \<Rightarrow> string" where
  "str_nat n = (if n < 10 then [digit_char n] else str_nat (n div 10) @ [digit_char (n mod 10)])"

definition str_int :: "int \<Rightarrow> string" where
  "str_int i = (if i < 0 then CHR ''-'' # str_nat (nat (- i)) else str_nat (nat i))"

text \<open>Python's slice \<open>xs[:n]\<close>: a negative \<open>n\<close> counts from the end.\<close>

definition slice_to :: "'a list \<Rightarrow> int \<Rightarrow> 'a list" where
  "slice_to xs n = (if 0 \<le> n then take (nat n) xs else take (length xs - nat (- n)) xs)"

section \<open>The world outside the program\<close>

text \<open>
  Exceptions that can leave a function of the audit engine. Every function that can
  raise returns \<open>py_error + 'a\<close>, with \<open>Inl\<close> the exception.
\<close>

datatype py_error = ValueError | KeyError

definition bind_result :: "py_error + 'a \<Rightarrow> ('a \<Rightarrow> py_error + 'b) \<Rightarrow> py_error + 'b" where
  "bind_result m f = (case m of Inl e \<Rightarrow> Inl e | Inr x \<Rightarrow> f x)"

text \<open>What the code reads of \<open>urlparse(u)\<close>.\<close>

record parsed_url =
  scheme :: string
  netloc :: string

text \<open>
  What the code reads of a \<open>requests.Response\<close>. \<open>truthy\<close> is \<open>bool(response)\<close>, the
  value of \<open>if response\<close> and \<open>if not response\<close>.
\<close>

record response =
  status_code :: int
  headers :: "(string \<times> string) list"
  body_text :: string
  truthy :: bool

text \<open>
  What the code asks of the parsed document (a \<open>BeautifulSoup\<close> object). An element
  that \<open>soup.find\<close> may not find is an option; an attribute that \<open>tag.get\<close> may not find
  is an option inside it.
\<close>

record anchor =
  href :: string
  anchor_text :: string
  in_nav :: bool
  in_main :: bool
  in_article :: bool
  in_header :: bool
  in_footer :: bool

record img =
  img_alt :: "string option"
  img_src :: "string option"

record soup =
  title_tag :: "string option"
  meta_description_tag :: "string option option"
  h1_elements :: "string list"
  img_tags :: "img list"
  canonical_link :: "string option option"
  viewport_tag :: bool
  meta_robots_tag :: "string option option"
  html_tag :: "string option option"
  meta_charset_tag :: "string option option"
  meta_http_equiv_tag :: "string option option"
  alternate_links :: "(string option \<times> string option) list"
  og_meta :: bool
  twitter_card_meta :: bool
  ld_json_scripts :: "string list"
  anchors :: "anchor list"

text \<open>
  The library functions and the network, as parameters of the model:
  \<^item> \<open>urlparse\<close>, \<open>urljoin\<close> (\<open>urllib.parse\<close>) and \<open>py_int\<close> (the builtin \<open>int\<close> on a
    string) return \<open>None\<close> where Python raises \<open>ValueError\<close>;
  \<^item> \<open>json_loads\<close> says whether \<open>json.loads\<close> returns;
  \<^item> \<open>soupify\<close> is \<open>BeautifulSoup(html, "html.parser")\<close>;
  \<^item> \<open>requests_get url timeout\<close> is \<open>Inl (str(exc))\<close> when the request raises;
    \<open>requests_head\<close> likewise;
  \<^item> \<open>elapsed_ms url\<close> is \<open>int(elapsed * 1000)\<close> for the timed fetch of \<open>url\<close>;
  \<^item> \<open>pick k\<close> chooses which of the pending link validations completes at step \<open>k\<close>
    (\<open>as_completed\<close> yields futures in completion order).
\<close>

record env =
  urlparse :: "string \<Rightarrow> parsed_url option"
  urljoin :: "string \<Rightarrow> string \<Rightarrow> string option"
  py_int :: "string \<Rightarrow> int option"
  json_loads :: "string \<Rightarrow> bool"
  soupify :: "string \<Rightarrow> soup"
  requests_get :: "string \<Rightarrow> int \<Rightarrow> string + response"
  requests_head :: "string \<Rightarrow> int \<Rightarrow> string + response"
  elapsed_ms :: "string \<Rightarrow> int"
  pick :: "nat \<Rightarrow> nat"

section \<open>URL helpers\<close>

definition ensure_url_scheme :: "env \<Rightarrow> string \<Rightarrow> string" where
  "ensure_url_scheme E input_url =
     (case urlparse E input_url of
        None \<Rightarrow> input_url
      | Some parsed \<Rightarrow> if scheme parsed = [] then ''https://'' @ input_url else input_url)"

definition fetch :: "env \<Rightarrow> string \<Rightarrow> int \<Rightarrow> response option \<times> string option \<times> int" where
  "fetch E u timeout =
     (case requests_get E u timeout of
        Inr r \<Rightarrow> (Some r, None, elapsed_ms E u)
      | Inl exc \<Rightarrow> (None, Some exc, elapsed_ms E u))"

definition absolute_url :: "env \<Rightarrow> string \<Rightarrow> string \<Rightarrow> string" where
  "absolute_url E base_url h = (case urljoin E base_url h of Some u \<Rightarrow> u | None \<Rightarrow> h)"

definition domain :: "env \<Rightarrow> string \<Rightarrow> py_error + string" where
  "domain E u = (case urlparse E u of None \<Rightarrow> Inl ValueError | Some p \<Rightarrow> Inr (lower (netloc p)))"

definition is_internal :: "env \<Rightarrow> string \<Rightarrow> string \<Rightarrow> bool" where
  "is_internal E base_url h =
     (case domain E base_url of
        Inl e \<Rightarrow> False
      | Inr d \<Rightarrow> (case domain E (absolute_url E base_url h) of Inl e \<Rightarrow> False | Inr d' \<Rightarrow> d = d'))"

section \<open>On-page checks\<close>

text \<open>\<open>title_info\<close> and \<open>meta_description_info\<close>: the keys \<open>length\<close> and \<open>issues\<close>.\<close>

record length_info =
  info_length :: nat
  issues :: "string list"

definition check_title :: "soup \<Rightarrow> string list \<Rightarrow> (string option \<times> length_info) \<times> string list" where
  "check_title sp recommendations =
     (case title_tag sp of
        Some t \<Rightarrow>
          if strip t \<noteq> [] then
            (let title = strip t;
                 short = length title < 30;
                 long = length title > 60;
                 data = \<lparr>info_length = length title,
                         issues = (if short then [''Title too short (<30 chars)''] else [])
                                  @ (if long then [''Title too long (>60 chars)''] else [])\<rparr>;
                 recs1 = (if short then recommendations @ [''Increase title length to ~50-60 characters.'']
                          else recommendations);
                 recs2 = (if long then recs1 @ [''Shorten title to <=60 characters.''] else recs1)
             in ((Some title, data), recs2))
          else ((None, \<lparr>info_length = 0, issues = [''Missing title'']\<rparr>),
                recommendations @ [''Missing <title> tag.''])
      | None \<Rightarrow> ((None, \<lparr>info_length = 0, issues = [''Missing title'']\<rparr>),
                 recommendations @ [''Missing <title> tag.'']))"

definition check_meta_description ::
  "soup \<Rightarrow> string list \<Rightarrow> (string option \<times> length_info) \<times> string list" where
  "check_meta_description sp recommendations =
     (let missing = ((None, \<lparr>info_length = 0, issues = [''Missing meta description'']\<rparr>),
                     recommendations @ [''Add a unique meta description (120-160 characters).''])
      in case meta_description_tag sp of
        Some (Some c) \<Rightarrow>
          if c \<noteq> [] then
            (let content = strip c;
                 short = length content < 50;
                 long = length content > 160;
                 data = \<lparr>info_length = length content,
                         issues = (if short then [''Description too short (<50 chars)''] else [])
                                  @ (if long then [''Description too long (>160 chars)''] else [])\<rparr>;
                 recs1 = (if short then recommendations @ [''Expand meta description to 120-160 characters.'']
                          else recommendations);
                 recs2 = (if long then recs1 @ [''Shorten meta description to <=160 characters.'']
                          else recs1)
             in ((Some content, data), recs2))
          else missing
      | _ \<Rightarrow> missing)"

record h1_info =
  h1_count :: nat
  h1_issues :: "string list"

definition check_h1 :: "soup \<Rightarrow> string list \<Rightarrow> (string list \<times> h1_info) \<times> string list" where
  "check_h1 sp recommendations =
     (let h1s = map strip (filter (\<lambda>t. t \<noteq> [] \<and> strip t \<noteq> []) (h1_elements sp))
      in if length h1s = 0 then
           ((h1s, \<lparr>h1_count = length h1s, h1_issues = [''No H1'']\<rparr>),
            recommendations @ [''Add one descriptive H1 heading.''])
         else if length h1s > 1 then
           ((h1s, \<lparr>h1_count = length h1s, h1_issues = [''Multiple H1s'']\<rparr>),
            recommendations @ [''Use only one primary H1 heading per page.''])
         else ((h1s, \<lparr>h1_count = length h1s, h1_issues = []\<rparr>), recommendations))"

definition alt_missing :: "img \<Rightarrow> bool" where
  "alt_missing i = (case img_alt i of None \<Rightarrow> True | Some a \<Rightarrow> a = [] \<or> strip a = [])"

definition check_images :: "soup \<Rightarrow> string list \<Rightarrow> (string list \<times> nat) \<times> string list" where
  "check_images sp recommendations =
     (let images = img_tags sp;
          missing = map (\<lambda>i. case img_src i of None \<Rightarrow> ''unknown'' | Some s \<Rightarrow> s)
                        (filter alt_missing images)
      in ((missing, length images),
          (if missing \<noteq> [] then recommendations @ [str_nat (length missing) @ '' images missing alt text.'']
           else recommendations)))"

text \<open>
  \<open>urlparse(u).netloc\<close> outside any \<open>try\<close>: a \<open>ValueError\<close> leaves the check.
\<close>

definition netloc_of :: "env \<Rightarrow> string \<Rightarrow> py_error + string" where
  "netloc_of E u = (case urlparse E u of None \<Rightarrow> Inl ValueError | Some p \<Rightarrow> Inr (netloc p))"

definition scheme_of :: "env \<Rightarrow> string \<Rightarrow> py_error + string" where
  "scheme_of E u = (case urlparse E u of None \<Rightarrow> Inl ValueError | Some p \<Rightarrow> Inr (scheme p))"

definition check_canonical ::
  "env \<Rightarrow> string \<Rightarrow> soup \<Rightarrow> string list \<Rightarrow> py_error + (string option \<times> string list) \<times> string list" where
  "check_canonical E base_url sp recommendations =
     (let missing = Inr ((None, [''Missing canonical'']),
                         recommendations @ [''Add a canonical <link> to avoid duplicate content.''])
      in case canonical_link sp of
        Some (Some h) \<Rightarrow>
          if h \<noteq> [] then
            (let canon = absolute_url E base_url h;
                 page_no_fragment = absolute_url E base_url []
             in bind_result (netloc_of E canon) (\<lambda>n1.
                bind_result (netloc_of E page_no_fragment) (\<lambda>n2.
                  if n1 \<noteq> n2 then
                    Inr ((Some canon, [''Canonical points to different domain'']),
                         recommendations @ [''Ensure canonical URL points to the same domain.''])
                  else Inr ((Some canon, []), recommendations))))
          else missing
      | _ \<Rightarrow> missing)"

definition check_viewport :: "soup \<Rightarrow> string list \<Rightarrow> bool \<times> string list" where
  "check_viewport sp recommendations =
     (if \<not> viewport_tag sp then (False, recommendations @ [''Add responsive viewport meta tag.''])
      else (True, recommendations))"

record robots_flags =
  noindex :: bool
  nofollow :: bool

definition check_meta_robots :: "soup \<Rightarrow> string list \<Rightarrow> robots_flags \<times> string list" where
  "check_meta_robots sp recommendations =
     (case meta_robots_tag sp of
        Some (Some c) \<Rightarrow>
          if c \<noteq> [] then
            (let content = lower c;
                 data = \<lparr>noindex = contains content ''noindex'',
                         nofollow = contains content ''nofollow''\<rparr>;
                 recs1 = (if noindex data then recommendations @ [''Page is set to noindex.'']
                          else recommendations);
                 recs2 = (if nofollow data then recs1 @ [''Page is set to nofollow.''] else recs1)
             in (data, recs2))
          else (\<lparr>noindex = False, nofollow = False\<rparr>, recommendations)
      | _ \<Rightarrow> (\<lparr>noindex = False, nofollow = False\<rparr>, recommendations))"

record lang_charset_info =
  lang :: "string option"
  charset :: "string option"

definition attr_value :: "string option option \<Rightarrow> string option" where
  "attr_value tag = (case tag of Some (Some v) \<Rightarrow> (if v \<noteq> [] then Some v else None) | _ \<Rightarrow> None)"

definition check_lang_and_charset :: "soup \<Rightarrow> string list \<Rightarrow> lang_charset_info \<times> string list" where
  "check_lang_and_charset sp recommendations =
     (let (lg, recs1) = (case attr_value (html_tag sp) of
                           Some l \<Rightarrow> (Some (strip l), recommendations)
                         | None \<Rightarrow> (None, recommendations
                                      @ [''Set <html lang> attribute for accessibility and SEO.'']));
          (cs, recs2) = (case attr_value (meta_charset_tag sp) of
                           Some c \<Rightarrow> (Some (lower (strip c)), recs1)
                         | None \<Rightarrow>
                             (case attr_value (meta_http_equiv_tag sp) of
                                Some c \<Rightarrow> (Some (lower c), recs1)
                              | None \<Rightarrow> (None, recs1 @ [''Declare a charset (e.g., UTF-8).''])))
      in (\<lparr>lang = lg, charset = cs\<rparr>, recs2))"

definition check_hreflang ::
  "env \<Rightarrow> string \<Rightarrow> soup \<Rightarrow> string list \<Rightarrow> (string \<times> string) list \<times> string list" where
  "check_hreflang E base_url sp recommendations =
     (let hreflangs =
            concat (map (\<lambda>(hl, h). case (hl, h) of
                           (Some l, Some u) \<Rightarrow>
                             (if l \<noteq> [] \<and> u \<noteq> [] then [(l, absolute_url E base_url u)] else [])
                         | _ \<Rightarrow> [])
                        (alternate_links sp));
          has_x_default = list_ex (\<lambda>(l, u). lower l = ''x-default'') hreflangs
      in (hreflangs,
          (if hreflangs \<noteq> [] \<and> \<not> has_x_default
           then recommendations @ [''Add x-default hreflang for international pages.'']
           else recommendations)))"

record social_section =
  open_graph :: bool
  twitter_card :: bool
  json_ld_blocks :: nat
  json_ld_errors :: nat

fun json_ld_loop :: "env \<Rightarrow> string list \<Rightarrow> social_section \<times> string list \<Rightarrow> social_section \<times> string list" where
  "json_ld_loop E [] st = st"
| "json_ld_loop E (script # scripts) (data, recommendations) =
     (if json_loads E script
      then json_ld_loop E scripts (data\<lparr>json_ld_blocks := json_ld_blocks data + 1\<rparr>, recommendations)
      else json_ld_loop E scripts
             (data\<lparr>json_ld_errors := json_ld_errors data + 1\<rparr>,
              recommendations @ [''Fix invalid JSON-LD structured data.'']))"

definition check_social_and_structured :: "env \<Rightarrow> soup \<Rightarrow> string list \<Rightarrow> social_section \<times> string list" where
  "check_social_and_structured E sp recommendations =
     (let data0 = \<lparr>open_graph = False, twitter_card = False, json_ld_blocks = 0, json_ld_errors = 0\<rparr>;
          (data1, recs1) = (if og_meta sp then (data0\<lparr>open_graph := True\<rparr>, recommendations)
                            else (data0, recommendations
                                    @ [''Add Open Graph tags for better social sharing.'']));
          (data2, recs2) = (if twitter_card_meta sp then (data1\<lparr>twitter_card := True\<rparr>, recs1)
                            else (data1, recs1 @ [''Add Twitter Card meta tags.'']))
      in json_ld_loop E (ld_json_scripts sp) (data2, recs2))"

section \<open>Link sampling and validation\<close>

definition link_score :: "anchor \<Rightarrow> int" where
  "link_score a =
     (if in_nav a then 10 else 0)
     + (if in_main a \<or> in_article a then 8 else 0)
     + (if in_header a then 6 else 0)
     + (if in_footer a then 4 else 0)
     - (if list_ex (\<lambda>word. contains (lower (href a)) word)
             [''social'', ''ad'', ''analytics'', ''tracking''] then 5 else 0)
     + (if length (anchor_text a) > 3 \<and> length (anchor_text a) < 50 then 2 else 0)"

definition skipped_href :: "string \<Rightarrow> bool" where
  "skipped_href h = (startswith h ''javascript:'' \<or> startswith h ''mailto:'' \<or> startswith h ''tel:'')"

definition placeholder_base :: string where
  "placeholder_base = ''https://placeholder.com''"

text \<open>The test that decides which scored list an anchor enters.\<close>

definition sampled_as_internal :: "env \<Rightarrow> string \<Rightarrow> bool" where
  "sampled_as_internal E h =
     (let full_url = absolute_url E placeholder_base h
      in is_internal E placeholder_base full_url)"

fun sampling_loop ::
  "env \<Rightarrow> anchor list \<Rightarrow> (string \<times> int) list \<times> (string \<times> int) list
     \<Rightarrow> (string \<times> int) list \<times> (string \<times> int) list" where
  "sampling_loop E [] acc = acc"
| "sampling_loop E (a # as) (scored_internal, scored_external) =
     (if skipped_href (href a) then sampling_loop E as (scored_internal, scored_external)
      else
        (let link_data = (href a, link_score a)
         in if sampled_as_internal E (href a)
            then sampling_loop E as (scored_internal @ [link_data], scored_external)
            else sampling_loop E as (scored_internal, scored_external @ [link_data])))"

text \<open>
  \<open>list.sort(key=..., reverse=True)\<close> is stable, as \<open>sort_key\<close> on the negated key is.
\<close>

definition sort_by_score :: "(string \<times> int) list \<Rightarrow> (string \<times> int) list" where
  "sort_by_score xs = sort_key (\<lambda>link. - snd link) xs"

definition smart_link_sampling :: "env \<Rightarrow> soup \<Rightarrow> int \<Rightarrow> string list \<times> string list" where
  "smart_link_sampling E sp max_links =
     (let (scored_internal, scored_external) = sampling_loop E (anchors sp) ([], [])
      in (map fst (slice_to (sort_by_score scored_internal) max_links),
          map fst (slice_to (sort_by_score scored_external) max_links)))"

fun unique_loop :: "string list \<Rightarrow> string set \<Rightarrow> string list \<Rightarrow> string list" where
  "unique_loop [] seen out = out"
| "unique_loop (x # xs) seen out =
     (if x \<notin> seen then unique_loop xs (insert x seen) (out @ [x]) else unique_loop xs seen out)"

definition unique :: "string list \<Rightarrow> string list" where
  "unique xs = unique_loop xs {} []"

datatype http_method = HEAD | GET

type_synonym request = "http_method \<times> string"

text \<open>
  \<open>head_or_get\<close> with the requests it issues. \<open>None\<close> is the \<open>None\<close> it returns when a
  request raises (a timeout is an exception of \<open>requests\<close>).
\<close>

definition head_or_get :: "env \<Rightarrow> string \<Rightarrow> response option \<times> request list" where
  "head_or_get E u =
     (case requests_head E u 3 of
        Inl exc \<Rightarrow> (None, [(HEAD, u)])
      | Inr r \<Rightarrow>
          if status_code r \<ge> 400 \<or> status_code r \<in> {405, 501} then
            (case requests_get E u 3 of
               Inl exc \<Rightarrow> (None, [(HEAD, u), (GET, u)])
             | Inr r' \<Rightarrow> (Some r', [(HEAD, u), (GET, u)]))
          else (Some r, [(HEAD, u)]))"

record link_buckets =
  broken_internal :: "(string \<times> int) list"
  broken_external :: "(string \<times> int) list"
  redirects :: "(string \<times> int) list"

definition add_broken :: "env \<Rightarrow> string \<Rightarrow> string \<Rightarrow> int \<Rightarrow> link_buckets \<Rightarrow> link_buckets" where
  "add_broken E base_url link status b =
     (if is_internal E base_url link
      then b\<lparr>broken_internal := broken_internal b @ [(link, status)]\<rparr>
      else b\<lparr>broken_external := broken_external b @ [(link, status)]\<rparr>)"

text \<open>
  The body of the \<open>as_completed\<close> loop for one future. On \<open>None\<close>, \<open>resp.status_code\<close>
  raises and the \<open>except\<close> branch records status 0.
\<close>

definition record_outcome ::
  "env \<Rightarrow> string \<Rightarrow> link_buckets \<Rightarrow> string \<times> response option \<Rightarrow> link_buckets" where
  "record_outcome E base_url b lr =
     (case snd lr of
        Some resp \<Rightarrow>
          (let status = status_code resp;
               b1 = (if 300 \<le> status \<and> status < 400
                     then b\<lparr>redirects := redirects b @ [(fst lr, status)]\<rparr> else b)
           in if status \<ge> 400 then add_broken E base_url (fst lr) status b1 else b1)
      | None \<Rightarrow> add_broken E base_url (fst lr) 0 b)"

text \<open>
  The order in which the submitted futures complete: at step \<open>k\<close> the scheduler's
  choice \<open>pk k\<close> selects one of the pending ones.
\<close>

function completion_order :: "(nat \<Rightarrow> nat) \<Rightarrow> nat \<Rightarrow> 'a list \<Rightarrow> 'a list" where
  "completion_order pk k pending =
     (if pending = [] then []
      else (let i = pk k mod length pending
            in pending ! i # completion_order pk (Suc k) (take i pending @ drop (Suc i) pending)))"
  by pat_completeness auto
termination
proof (relation "measure (\<lambda>(pk, k, pending). length pending)")
  show "wf (measure (\<lambda>(pk :: nat \<Rightarrow> nat, k :: nat, pending :: 'a list). length pending))"
    by simp
next
  fix pk :: "nat \<Rightarrow> nat" and k :: nat and pending :: "'a list" and i :: nat
  assume "pending \<noteq> []" and i: "i = pk k mod length pending"
  then have "i < length pending" by simp
  then show "((pk, Suc k, take i pending @ drop (Suc i) pending), (pk, k, pending))
               \<in> measure (\<lambda>(pk, k, pending). length pending)"
    by simp
qed

declare completion_order.simps [simp del]

definition empty_buckets :: link_buckets where
  "empty_buckets = \<lparr>broken_internal = [], broken_external = [], redirects = []\<rparr>"

definition validate_links :: "env \<Rightarrow> string \<Rightarrow> string list \<Rightarrow> link_buckets \<times> request list" where
  "validate_links E base_url ls =
     (let futures = map (\<lambda>link. (link, head_or_get E link)) ls;
          completed = completion_order (pick E) 0 futures
      in (foldl (record_outcome E base_url) empty_buckets
                (map (\<lambda>(link, r). (link, fst r)) completed),
          concat (map (\<lambda>(link, r). snd r) futures)))"

record links_section = link_buckets +
  internal_count :: nat
  external_count :: nat

text \<open>
  What \<open>check_links\<close> does beyond its result: the size of the worker pool it creates and
  the requests the workers issue (in submission order).
\<close>

record link_effects =
  pool_max_workers :: int
  link_requests :: "request list"

text \<open>\<open>ThreadPoolExecutor(max_workers=workers)\<close> raises \<open>ValueError\<close> unless \<open>workers > 0\<close>.\<close>

definition check_links ::
  "env \<Rightarrow> string \<Rightarrow> soup \<Rightarrow> int \<Rightarrow> string list \<Rightarrow> int
     \<Rightarrow> py_error + (links_section \<times> string list \<times> link_effects)" where
  "check_links E base_url sp max_links recommendations workers =
     (let (internal0, external0) = smart_link_sampling E sp max_links;
          internal = unique internal0;
          external = unique external0
      in if workers \<le> 0 then Inl ValueError
         else
           (let (b, reqs) = validate_links E base_url (internal @ external);
                recs1 = (if broken_internal b \<noteq> []
                         then recommendations
                              @ [str_nat (length (broken_internal b)) @ '' internal links appear broken.'']
                         else recommendations);
                recs2 = (if redirects b \<noteq> []
                         then recs1 @ [str_nat (length (redirects b))
                                       @ '' links redirect; update to final URLs where possible.'']
                         else recs1)
            in Inr (\<lparr>broken_internal = take 10 (broken_internal b),
                      broken_external = take 10 (broken_external b),
                      redirects = take 10 (redirects b),
                      internal_count = length internal,
                      external_count = length external\<rparr>,
                    recs2,
                    \<lparr>pool_max_workers = workers, link_requests = reqs\<rparr>)))"

section \<open>Technical signals, robots.txt and sitemap.xml\<close>

text \<open>The dict \<open>{k.lower(): v for k, v in response.headers.items()}\<close>: a later key wins.\<close>

definition header_dict :: "(string \<times> string) list \<Rightarrow> string \<Rightarrow> string option" where
  "header_dict hs = map_of (rev (map (\<lambda>(k, v). (lower k, v)) hs))"

record tech_section =
  tech_status_code :: int
  response_time_ms :: int
  content_length :: int
  gzip :: bool
  hsts :: bool
  x_content_type_options :: bool
  x_frame_options :: bool
  referrer_policy :: bool
  csp :: bool
  server :: "string option"
  cache_control :: "string option"

definition add_if :: "bool \<Rightarrow> string \<Rightarrow> string list \<Rightarrow> string list" where
  "add_if c r recommendations = (if c then recommendations @ [r] else recommendations)"

definition check_technical_headers ::
  "env \<Rightarrow> string \<Rightarrow> response \<Rightarrow> int \<Rightarrow> string list \<Rightarrow> py_error + tech_section \<times> string list" where
  "check_technical_headers E u resp elapsed recommendations =
     (let hd = header_dict (headers resp)
      in bind_result (case hd ''content-length'' of
                        None \<Rightarrow> Inr 0
                      | Some v \<Rightarrow> if v = [] then Inr 0
                                  else (case py_int E v of None \<Rightarrow> Inl ValueError | Some n \<Rightarrow> Inr n))
         (\<lambda>clen.
           (let tech = \<lparr>tech_status_code = status_code resp,
                        response_time_ms = elapsed,
                        content_length = clen,
                        gzip = (lower (case hd ''content-encoding'' of None \<Rightarrow> [] | Some v \<Rightarrow> v)
                                  \<in> {''gzip'', ''br'', ''deflate''}),
                        hsts = (hd ''strict-transport-security'' \<noteq> None),
                        x_content_type_options = (hd ''x-content-type-options'' = Some ''nosniff''),
                        x_frame_options = (hd ''x-frame-options'' \<noteq> None),
                        referrer_policy = (hd ''referrer-policy'' \<noteq> None),
                        csp = (hd ''content-security-policy'' \<noteq> None),
                        server = hd ''server'',
                        cache_control = hd ''cache-control''\<rparr>;
                recs1 = add_if (response_time_ms tech > 1500)
                          ''Page load (first byte) seems slow (>1.5s). Optimize performance.''
                          recommendations;
                recs2 = add_if (content_length tech > 2 * 1024 * 1024)
                          ''Large page size (>2MB). Consider optimizing assets.'' recs1
            in bind_result (scheme_of E u)
               (\<lambda>sch.
                 (let recs3 = add_if (sch = ''https'' \<and> \<not> hsts tech)
                                ''Enable HSTS for better transport security.'' recs2;
                      recs4 = add_if (\<not> x_content_type_options tech)
                                ''Add X-Content-Type-Options: nosniff header.'' recs3;
                      recs5 = add_if (\<not> x_frame_options tech)
                                ''Add X-Frame-Options header to prevent clickjacking.'' recs4;
                      recs6 = add_if (\<not> referrer_policy tech)
                                ''Set a Referrer-Policy header.'' recs5;
                      recs7 = add_if (\<not> csp tech)
                                ''Consider adding a Content-Security-Policy header.'' recs6
                  in Inr (tech, recs7))))))"

record robots_section =
  robots_txt :: string
  sitemap :: string
  robots_notes :: "string list"

definition is_200 :: "response option \<Rightarrow> bool" where
  "is_200 resp = (case resp of None \<Rightarrow> False | Some r \<Rightarrow> truthy r \<and> status_code r = 200)"

definition check_robots_and_sitemap ::
  "env \<Rightarrow> string \<Rightarrow> string list \<Rightarrow> py_error + (robots_section \<times> string list \<times> request list)" where
  "check_robots_and_sitemap E base_url recommendations =
     (case urljoin E base_url ''/robots.txt'' of
        None \<Rightarrow> Inl ValueError
      | Some robots_url \<Rightarrow>
          (let (resp, err, el) = fetch E robots_url 3;
               content = (case resp of Some r \<Rightarrow> body_text r | None \<Rightarrow> []);
               notes = (if is_200 resp
                        then (if \<not> contains content ''Disallow:'' \<and> \<not> contains content ''Allow:''
                              then [''robots.txt seems permissive (no explicit rules).''] else [])
                             @ (if contains content ''Sitemap:''
                                then [''robots.txt references a sitemap.''] else [])
                        else []);
               recs1 = add_if (\<not> is_200 resp) ''Missing robots.txt file.'' recommendations
           in case urljoin E base_url ''/sitemap.xml'' of
                None \<Rightarrow> Inl ValueError
              | Some sitemap_url \<Rightarrow>
                  (let (s_resp, s_err, s_el) = fetch E sitemap_url 3;
                       recs2 = add_if (\<not> is_200 s_resp) ''Missing sitemap.xml file.'' recs1
                   in Inr (\<lparr>robots_txt = (if is_200 resp then ''Present'' else ''Missing''),
                             sitemap = (if is_200 s_resp then ''Present'' else ''Missing''),
                             robots_notes = notes\<rparr>,
                           recs2,
                           [(GET, robots_url), (GET, sitemap_url)]))))"

section \<open>The report and the scorer\<close>

record on_page_section =
  title :: "string option"
  title_info :: length_info
  meta_description :: "string option"
  meta_description_info :: length_info
  h1_tags :: "string list"
  h1_info :: h1_info
  images_missing_alt :: "string list"
  images_total :: nat
  canonical :: "string option"
  canonical_issues :: "string list"
  has_viewport_meta :: bool
  meta_robots :: robots_flags
  lang_charset :: lang_charset_info
  hreflang :: "(string \<times> string) list"

text \<open>
  The \<open>technical\<close> dict: empty, \<open>{"error": err}\<close>,
  \<open>{"status_code": s, "response_time_ms": t}\<close>, or the full section.
\<close>

datatype technical =
  NoTechnical
| TechError "string option"
| TechHttpError int int
| Technical tech_section

definition technical_keys :: "technical \<Rightarrow> string list" where
  "technical_keys t =
     (case t of
        NoTechnical \<Rightarrow> []
      | TechError err \<Rightarrow> [''error'']
      | TechHttpError s ms \<Rightarrow> [''status_code'', ''response_time_ms'']
      | Technical full \<Rightarrow>
          [''status_code'', ''response_time_ms'', ''content_length'', ''gzip'', ''hsts'',
           ''x_content_type_options'', ''x_frame_options'', ''referrer_policy'', ''csp'',
           ''server'', ''cache_control''])"

record score_breakdown =
  overall :: int
  deductions :: "string list"

text \<open>A section that is the empty dict \<open>{}\<close> is \<open>None\<close>; a key that is not set is \<open>None\<close>.\<close>

record report =
  url :: string
  on_page :: "on_page_section option"
  social_structured :: "social_section option"
  links :: "links_section option"
  technical :: technical
  robots_sitemap :: "robots_section option"
  recommendations :: "string list"
  score_section :: "score_breakdown option"
  analysis_time_ms :: "int option"
  workers_used :: "int option"

definition deduct :: "int \<Rightarrow> string \<Rightarrow> int \<times> string list \<Rightarrow> int \<times> string list" where
  "deduct points reason st = (fst st - points, snd st @ [''-'' @ str_int points @ '': '' @ reason])"

text \<open>
  The scorer's \<open>if condition: deduct(points, reason)\<close> statements, in the order of the
  source. The last argument is the condition of the HSTS deduction.
\<close>

definition score_rules ::
  "on_page_section \<Rightarrow> social_section \<Rightarrow> links_section \<Rightarrow> tech_section \<Rightarrow> robots_section \<Rightarrow> bool
     \<Rightarrow> (bool \<times> int \<times> string) list" where
  "score_rules op so lk tech rs https_without_hsts =
     [(issues (title_info op) \<noteq> [], 5, ''Title issues''),
      (issues (meta_description_info op) \<noteq> [], 5, ''Meta description issues''),
      (h1_issues (h1_info op) \<noteq> [], 5, ''H1 count issues''),
      (length (images_missing_alt op) > 5, 3, ''Many images missing alt''),
      (canonical_issues op \<noteq> [], 2, ''Canonical issues''),
      (\<not> has_viewport_meta op, 2, ''Missing viewport''),
      (noindex (meta_robots op), 10, ''noindex set''),
      (\<not> open_graph so, 2, ''Missing Open Graph''),
      (\<not> twitter_card so, 1, ''Missing Twitter Card''),
      (json_ld_errors so > 0, 2, ''Invalid JSON-LD''),
      (length (broken_internal lk) > 0, 5, ''Broken internal links''),
      (length (broken_external lk) > 3, 2, ''Multiple broken external links''),
      (response_time_ms tech > 1500, 5, ''Slow TTFB''),
      (content_length tech > 2 * 1024 * 1024, 4, ''Large page size''),
      (https_without_hsts, 2, ''Missing HSTS''),
      (\<not> x_content_type_options tech, 1, ''Missing X-Content-Type-Options''),
      (\<not> x_frame_options tech, 1, ''Missing X-Frame-Options''),
      (\<not> referrer_policy tech, 1, ''Missing Referrer-Policy''),
      (\<not> csp tech, 1, ''Missing CSP''),
      (robots_txt rs \<noteq> ''Present'', 2, ''Missing robots.txt''),
      (sitemap rs \<noteq> ''Present'', 2, ''Missing sitemap.xml'')]"

definition apply_rule :: "int \<times> string list \<Rightarrow> bool \<times> int \<times> string \<Rightarrow> int \<times> string list" where
  "apply_rule st rule = (if fst rule then deduct (fst (snd rule)) (snd (snd rule)) st else st)"

text \<open>The score before \<open>max(score, 0)\<close>, with the deductions list.\<close>

definition run_rules :: "(bool \<times> int \<times> string) list \<Rightarrow> int \<times> string list" where
  "run_rules rules = foldl apply_rule (100, []) rules"

definition score :: "env \<Rightarrow> report \<Rightarrow> py_error + score_breakdown" where
  "score E rep =
     (case on_page rep of
        None \<Rightarrow> Inl KeyError
      | Some op \<Rightarrow>
         (case social_structured rep of
            None \<Rightarrow> Inl KeyError
          | Some so \<Rightarrow>
             (case links rep of
                None \<Rightarrow> Inl KeyError
              | Some lk \<Rightarrow>
                 (case technical rep of
                    Technical tech \<Rightarrow>
                      bind_result
                        (if \<not> hsts tech
                         then bind_result (scheme_of E (url rep)) (\<lambda>sch. Inr (sch = ''https''))
                         else Inr False)
                        (\<lambda>https_without_hsts.
                          (case robots_sitemap rep of
                             None \<Rightarrow> Inl KeyError
                           | Some rs \<Rightarrow>
                               (let st = run_rules (score_rules op so lk tech rs https_without_hsts)
                                in Inr \<lparr>overall = max (fst st) 0, deductions = snd st\<rparr>)))
                  | NoTechnical \<Rightarrow> Inl KeyError
                  | TechError err \<Rightarrow> Inl KeyError
                  | TechHttpError s ms \<Rightarrow> Inl KeyError))))"

section \<open>The audit engine and its callers\<close>

text \<open>
  What an audit does beyond its report: the requests it issues, and the size of the
  worker pool when one is created.
\<close>

record audit_effects =
  requests :: "request list"
  pool :: "int option"

definition failure_unreachable :: "report \<Rightarrow> string option \<Rightarrow> report" where
  "failure_unreachable rep err =
     rep\<lparr>technical := TechError err,
         recommendations := recommendations rep
            @ [''Could not fetch website: '' @ (case err of None \<Rightarrow> ''None'' | Some e \<Rightarrow> e)],
         score_section := Some \<lparr>overall = 0, deductions = [''Critical: site unreachable'']\<rparr>\<rparr>"

definition failure_http_error :: "report \<Rightarrow> response \<Rightarrow> int \<Rightarrow> report" where
  "failure_http_error rep resp elapsed =
     rep\<lparr>technical := TechHttpError (status_code resp) elapsed,
         recommendations := recommendations rep
            @ [''Website returned status code '' @ str_int (status_code resp)
               @ ''. Check server health.''],
         score_section := Some \<lparr>overall = 0, deductions = [''Critical: HTTP error'']\<rparr>\<rparr>"

text \<open>The block of on-page checks of \<open>seo_audit\<close>, with the section it fills in.\<close>

definition on_page_checks ::
  "env \<Rightarrow> string \<Rightarrow> soup \<Rightarrow> string list \<Rightarrow> py_error + on_page_section \<times> string list" where
  "on_page_checks E u sp recs0 =
     (let ((ttl, ttl_info), recs1) = check_title sp recs0;
          ((desc, desc_info), recs2) = check_meta_description sp recs1;
          ((h1s, h1i), recs3) = check_h1 sp recs2;
          ((missing_alts, img_total), recs4) = check_images sp recs3
      in bind_result (check_canonical E u sp recs4)
         (\<lambda>((canon, canon_issues), recs5).
           (let (has_viewport, recs6) = check_viewport sp recs5;
                (robots_meta, recs7) = check_meta_robots sp recs6;
                (lang_cs, recs8) = check_lang_and_charset sp recs7;
                (hreflangs, recs9) = check_hreflang E u sp recs8
            in Inr (\<lparr>title = ttl, title_info = ttl_info,
                      meta_description = desc, meta_description_info = desc_info,
                      h1_tags = h1s, h1_info = h1i,
                      images_missing_alt = missing_alts, images_total = img_total,
                      canonical = canon, canonical_issues = canon_issues,
                      has_viewport_meta = has_viewport, meta_robots = robots_meta,
                      lang_charset = lang_cs, hreflang = hreflangs\<rparr>,
                    recs9))))"

text \<open>The report with its five sections and the recommendations, before scoring.\<close>

definition assemble ::
  "report \<Rightarrow> on_page_section \<Rightarrow> social_section \<Rightarrow> tech_section \<Rightarrow> robots_section
     \<Rightarrow> links_section \<Rightarrow> string list \<Rightarrow> report" where
  "assemble rep op so tech rs lk recs =
     rep\<lparr>on_page := Some op,
         social_structured := Some so,
         technical := Technical tech,
         robots_sitemap := Some rs,
         links := Some lk,
         recommendations := recs\<rparr>"

text \<open>The part of \<open>seo_audit\<close> after the two early returns.\<close>

definition full_audit ::
  "env \<Rightarrow> report \<Rightarrow> string \<Rightarrow> string \<Rightarrow> response \<Rightarrow> int \<Rightarrow> int \<Rightarrow> int
     \<Rightarrow> py_error + report \<times> audit_effects" where
  "full_audit E rep u base_url resp elapsed max_links workers =
     (let sp = soupify E (body_text resp)
      in bind_result (on_page_checks E u sp (recommendations rep))
         (\<lambda>(op, recs9).
           (let (so, recs10) = check_social_and_structured E sp recs9
            in bind_result (check_technical_headers E u resp elapsed recs10)
               (\<lambda>(tech, recs11).
                 bind_result (check_robots_and_sitemap E base_url recs11)
                   (\<lambda>(rs, recs12, probe_reqs).
                     bind_result (check_links E u sp max_links recs12 workers)
                       (\<lambda>(lk, recs13, eff).
                         (let rep1 = assemble rep op so tech rs lk recs13
                          in bind_result (score E rep1)
                             (\<lambda>sc. Inr (rep1\<lparr>score_section := Some sc,
                                               analysis_time_ms := Some elapsed,
                                               workers_used := Some workers\<rparr>,
                                         \<lparr>requests = [(GET, u)] @ probe_reqs @ link_requests eff,
                                           pool = Some (pool_max_workers eff)\<rparr>)))))))))"

text \<open>The report \<open>seo_audit\<close> starts from.\<close>

definition initial_report :: "string \<Rightarrow> report" where
  "initial_report u =
     \<lparr>url = u, on_page = None, social_structured = None, links = None,
      technical = NoTechnical, robots_sitemap = None, recommendations = [],
      score_section = None, analysis_time_ms = None, workers_used = None\<rparr>"

definition seo_audit :: "env \<Rightarrow> string \<Rightarrow> int \<Rightarrow> int \<Rightarrow> py_error + report \<times> audit_effects" where
  "seo_audit E raw_url max_links workers =
     (let u = ensure_url_scheme E (strip raw_url)
      in case urlparse E u of
           None \<Rightarrow> Inl ValueError
         | Some parsed \<Rightarrow>
             (let base_url = scheme parsed @ ''://'' @ netloc parsed;
                  rep = initial_report u;
                  (response, err, elapsed) = fetch E u 15
              in case response of
                   None \<Rightarrow> Inr (failure_unreachable rep err, \<lparr>requests = [(GET, u)], pool = None\<rparr>)
                 | Some resp \<Rightarrow>
                     if \<not> truthy resp
                     then Inr (failure_unreachable rep err, \<lparr>requests = [(GET, u)], pool = None\<rparr>)
                     else if status_code resp \<ge> 400
                     then Inr (failure_http_error rep resp elapsed,
                               \<lparr>requests = [(GET, u)], pool = None\<rparr>)
                     else full_audit E rep u base_url resp elapsed max_links workers))"

text \<open>
  The callers of the engine: the loop body of \<open>main\<close> (command line) and the two web
  routes \<open>index\<close> and \<open>full\<close>, up to their call of \<open>seo_audit\<close>.
\<close>

definition main_audit ::
  "env \<Rightarrow> string \<Rightarrow> int \<Rightarrow> bool \<Rightarrow> int \<Rightarrow> py_error + report \<times> audit_effects" where
  "main_audit E target_url args_max_links args_fast args_workers =
     (let max_links = (if args_fast then 0 else args_max_links);
          workers = min args_workers 20
      in seo_audit E target_url max_links workers)"

definition web_audit ::
  "env \<Rightarrow> string \<Rightarrow> int \<Rightarrow> bool \<Rightarrow> int \<Rightarrow> py_error + report \<times> audit_effects" where
  "web_audit E target_url form_max_links fast_mode form_workers =
     (let max_links = (if fast_mode then 0 else form_max_links);
          workers = min form_workers 20
      in seo_audit E (strip target_url) max_links workers)"

section \<open>A concrete environment\<close>

text \<open>
  An instance of the parameters, for evaluating the model on concrete pages.
  \<open>sample_urlparse\<close> follows \<open>urllib.parse.urlsplit\<close> for the scheme and the network
  location of URLs without brackets and control characters; \<open>sample_urljoin\<close> follows
  \<open>urljoin\<close> on the references used here: an absolute \<open>http(s)\<close> URL with a host is
  returned as it is, an empty reference gives the base, and a path starting with \<open>/\<close>
  replaces the path of the base.
\<close>

definition scheme_char :: "char \<Rightarrow> bool" where
  "scheme_char c =
     (let n = (of_char c :: nat)
      in (97 \<le> n \<and> n \<le> 122) \<or> (65 \<le> n \<and> n \<le> 90) \<or> (48 \<le> n \<and> n \<le> 57)
         \<or> c = CHR ''+'' \<or> c = CHR ''-'' \<or> c = CHR ''.'')"

definition ascii_alpha :: "char \<Rightarrow> bool" where
  "ascii_alpha c = (let n = (of_char c :: nat) in (97 \<le> n \<and> n \<le> 122) \<or> (65 \<le> n \<and> n \<le> 90))"

definition url_split :: "string \<Rightarrow> string \<times> string" where
  "url_split u =
     (let pre = takeWhile (\<lambda>c. c \<noteq> CHR '':'') u
      in if length pre < length u \<and> pre \<noteq> [] \<and> ascii_alpha (hd pre) \<and> list_all scheme_char pre
         then (lower pre, drop (length pre + 1) u)
         else ([], u))"

definition url_netloc :: "string \<Rightarrow> string" where
  "url_netloc rest =
     (if startswith rest ''//''
      then takeWhile (\<lambda>c. c \<noteq> CHR ''/'' \<and> c \<noteq> CHR ''?'' \<and> c \<noteq> CHR ''#'') (drop 2 rest)
      else [])"

definition sample_urlparse :: "string \<Rightarrow> parsed_url option" where
  "sample_urlparse u = Some \<lparr>scheme = fst (url_split u), netloc = url_netloc (snd (url_split u))\<rparr>"

definition sample_urljoin :: "string \<Rightarrow> string \<Rightarrow> string option" where
  "sample_urljoin base ref =
     (if base = [] then Some ref
      else if ref = [] then Some base
      else
        (let (bscheme, brest) = url_split base;
             (rscheme, rrest) = url_split ref
         in if rscheme \<noteq> [] \<and> rscheme \<noteq> bscheme then Some ref
            else if bscheme \<notin> {''http'', ''https''} then Some ref
            else if url_netloc rrest \<noteq> [] then Some ref
            else if startswith rrest ''/''
            then Some (bscheme @ ''://'' @ url_netloc brest @ rrest)
            else Some (bscheme @ ''://'' @ url_netloc brest @ ''/'' @ rrest)))"

fun digits_value :: "string \<Rightarrow> nat \<Rightarrow> nat option" where
  "digits_value [] acc = Some acc"
| "digits_value (c # cs) acc =
     (let n = (of_char c :: nat)
      in if 48 \<le> n \<and> n \<le> 57 then digits_value cs (10 * acc + (n - 48)) else None)"

definition sample_int :: "string \<Rightarrow> int option" where
  "sample_int s = (if s = [] then None else map_option int (digits_value s 0))"

text \<open>
  \<open>sample_response status hs body\<close>: \<open>bool(response)\<close> of \<open>requests\<close> is \<open>response.ok\<close>,
  false for the statuses 400 to 599.
\<close>

definition sample_response :: "int \<Rightarrow> (string \<times> string) list \<Rightarrow> string \<Rightarrow> response" where
  "sample_response status hs body =
     \<lparr>status_code = status, headers = hs, body_text = body,
      truthy = (\<not> (400 \<le> status \<and> status < 600))\<rparr>"

text \<open>
  The network as two tables (GET and HEAD); a URL that is not in a table cannot be
  reached and the request raises.
\<close>

definition sample_env ::
  "soup \<Rightarrow> (string \<times> response) list \<Rightarrow> (string \<times> response) list \<Rightarrow> env" where
  "sample_env sp gets heads =
     \<lparr>urlparse = sample_urlparse,
      urljoin = sample_urljoin,
      py_int = sample_int,
      json_loads = (\<lambda>s. s = ''{}''),
      soupify = (\<lambda>html. sp),
      requests_get = (\<lambda>u timeout. case map_of gets u of
                                    None \<Rightarrow> Inl ''connection refused'' | Some r \<Rightarrow> Inr r),
      requests_head = (\<lambda>u timeout. case map_of heads u of
                                     None \<Rightarrow> Inl ''connection refused'' | Some r \<Rightarrow> Inr r),
      elapsed_ms = (\<lambda>u. 120),
      pick = (\<lambda>k. 0)\<rparr>"

definition empty_soup :: soup where
  "empty_soup =
     \<lparr>title_tag = None, meta_description_tag = None, h1_elements = [], img_tags = [],
      canonical_link = None, viewport_tag = False, meta_robots_tag = None, html_tag = None,
      meta_charset_tag = None, meta_http_equiv_tag = None, alternate_links = [],
      og_meta = False, twitter_card_meta = False, ld_json_scripts = [], anchors = []\<rparr>"

definition plain_anchor :: "string \<Rightarrow> anchor" where
  "plain_anchor h =
     \<lparr>href = h, anchor_text = ''link'', in_nav = False, in_main = False, in_article = False,
      in_header = False, in_footer = False\<rparr>"

text \<open>
  The page of the end-to-end scenario: no title, no meta description, two H1 headings,
  one image without alt text, served over https without an HSTS header; every other
  on-page and header check passes.
\<close>

definition scenario_soup :: soup where
  "scenario_soup =
     \<lparr>title_tag = None, meta_description_tag = None,
      h1_elements = [''Welcome'', ''Latest news''],
      img_tags = [\<lparr>img_alt = Some ''Company logo'', img_src = Some ''/logo.png''\<rparr>,
                  \<lparr>img_alt = None, img_src = Some ''/banner.png''\<rparr>],
      canonical_link = Some (Some ''https://example.com/''),
      viewport_tag = True, meta_robots_tag = None, html_tag = Some (Some ''en''),
      meta_charset_tag = Some (Some ''utf-8''), meta_http_equiv_tag = None,
      alternate_links = [], og_meta = True, twitter_card_meta = True,
      ld_json_scripts = [''{}''],
      anchors = [plain_anchor ''https://example.com/about'',
                 plain_anchor ''https://partner.example.org/'']\<rparr>"

definition scenario_headers :: "(string \<times> string) list" where
  "scenario_headers =
     [(''Content-Length'', ''2048''), (''Content-Encoding'', ''gzip''),
      (''X-Content-Type-Options'', ''nosniff''), (''X-Frame-Options'', ''DENY''),
      (''Referrer-Policy'', ''no-referrer''), (''Content-Security-Policy'', ''default-src *'')]"

definition scenario_env :: env where
  "scenario_env =
     sample_env scenario_soup
       [(''https://example.com'', sample_response 200 scenario_headers ''<html>''),
        (''https://example.com/robots.txt'', sample_response 200 [] ''Disallow: /private'')]
       [(''https://example.com/about'', sample_response 200 [] []),
        (''https://partner.example.org/'', sample_response 200 [] [])]"

text \<open>A full report in which every deduction of the scorer applies.\<close>

definition worst_report :: report where
  "worst_report =
     \<lparr>url = ''https://example.com'',
      on_page = Some
        \<lparr>title = None, title_info = \<lparr>info_length = 0, issues = [''Missing title'']\<rparr>,
         meta_description = None,
         meta_description_info = \<lparr>info_length = 0, issues = [''Missing meta description'']\<rparr>,
         h1_tags = [], h1_info = \<lparr>h1_count = 0, h1_issues = [''No H1'']\<rparr>,
         images_missing_alt = replicate 6 ''unknown'', images_total = 6,
         canonical = None, canonical_issues = [''Missing canonical''],
         has_viewport_meta = False,
         meta_robots = \<lparr>noindex = True, nofollow = False\<rparr>,
         lang_charset = \<lparr>lang = None, charset = None\<rparr>, hreflang = []\<rparr>,
      social_structured = Some
        \<lparr>open_graph = False, twitter_card = False, json_ld_blocks = 0, json_ld_errors = 1\<rparr>,
      links = Some
        \<lparr>broken_internal = [(''/a'', 0)],
         broken_external = [(''https://a.example/'', 404), (''https://b.example/'', 404),
                            (''https://c.example/'', 404), (''https://d.example/'', 404)],
         redirects = [], internal_count = 1, external_count = 4\<rparr>,
      technical = Technical
        \<lparr>tech_status_code = 200, response_time_ms = 1501, content_length = 2097153,
         gzip = False, hsts = False, x_content_type_options = False, x_frame_options = False,
         referrer_policy = False, csp = False, server = None, cache_control = None\<rparr>,
      robots_sitemap = Some \<lparr>robots_txt = ''Missing'', sitemap = ''Missing'', robots_notes = []\<rparr>,
      recommendations = [], score_section = None, analysis_time_ms = None, workers_used = None\<rparr>"

text \<open>
  The condition of the two early returns of \<open>seo_audit\<close>: \<open>not response\<close> (the fetch
  raised, or the response is falsy) or \<open>response.status_code >= 400\<close>.
\<close>

definition short_circuit :: "env \<Rightarrow> string \<Rightarrow> bool" where
  "short_circuit E raw_url =
     (case requests_get E (ensure_url_scheme E (strip raw_url)) 15 of
        Inl exc \<Rightarrow> True
      | Inr resp \<Rightarrow> \<not> truthy resp \<or> status_code resp \<ge> 400)"

text \<open>A document whose only content is a title of \<open>n\<close> letters.\<close>

definition titled_soup :: "nat \<Rightarrow> soup" where
  "titled_soup n = empty_soup\<lparr>title_tag := Some (replicate n CHR ''a'')\<rparr>"

definition worst_report_score :: score_breakdown where
  "worst_report_score =
     \<lparr>overall = 37,
      deductions =
        [''-5: Title issues'', ''-5: Meta description issues'', ''-5: H1 count issues'',
         ''-3: Many images missing alt'', ''-2: Canonical issues'', ''-2: Missing viewport'',
         ''-10: noindex set'', ''-2: Missing Open Graph'', ''-1: Missing Twitter Card'',
         ''-2: Invalid JSON-LD'', ''-5: Broken internal links'',
         ''-2: Multiple broken external links'', ''-5: Slow TTFB'', ''-4: Large page size'',
         ''-2: Missing HSTS'', ''-1: Missing X-Content-Type-Options'',
         ''-1: Missing X-Frame-Options'', ''-1: Missing Referrer-Policy'',
         ''-1: Missing CSP'', ''-2: Missing robots.txt'', ''-2: Missing sitemap.xml'']\<rparr>"

text \<open>The \<open>Content-Length\<close> header, when present and not empty, is one \<open>int\<close> accepts.\<close>

definition content_length_parses :: "env \<Rightarrow> response \<Rightarrow> bool" where
  "content_length_parses E resp =
     (case header_dict (headers resp) ''content-length'' of
        None \<Rightarrow> True
      | Some v \<Rightarrow> v = [] \<or> py_int E v \<noteq> None)"

text \<open>A site that cannot be reached, and a site that answers with a given response.\<close>

definition unreachable_env :: env where
  "unreachable_env = sample_env empty_soup [] []"

definition http_error_env :: "response \<Rightarrow> env" where
  "http_error_env resp = sample_env empty_soup [(''https://example.com'', resp)] []"

text \<open>Sites with links that fail, for evaluating link validation.\<close>

definition partner_down_env :: env where
  "partner_down_env =
     sample_env scenario_soup
       [(''https://example.com'', sample_response 200 scenario_headers ''<html>'')]
       [(''https://example.com/about'', sample_response 200 [] [])]"


definition broken_links_soup :: soup where
  "broken_links_soup =
     empty_soup\<lparr>anchors :=
        [plain_anchor ''https://example.com/old'',
         plain_anchor ''https://example.com/moved'',
         plain_anchor ''https://partner.example.org/gone'']\<rparr>"

definition broken_links_env :: env where
  "broken_links_env =
     sample_env broken_links_soup []
       [(''https://example.com/moved'', sample_response 301 [] [])]"

text \<open>The links \<open>check_links\<close> submits to the pool.\<close>

definition selected_links :: "env \<Rightarrow> soup \<Rightarrow> int \<Rightarrow> string list" where
  "selected_links E sp max_links =
     unique (fst (smart_link_sampling E sp max_links))
     @ unique (snd (smart_link_sampling E sp max_links))"


section \<open>The scorer: range of the overall score\<close>

lemma foldl_apply_rule_fst:
  "fst (foldl apply_rule st rules)
     = fst st - sum_list (map (\<lambda>r. fst (snd r)) (filter fst rules))"
  by (induction rules arbitrary: st) (simp_all add: apply_rule_def deduct_def)

lemma applied_points_bounds:
  fixes rules :: "(bool \<times> int \<times> string) list"
  assumes "\<forall>r \<in> set rules. 0 \<le> fst (snd r)"
  shows "0 \<le> sum_list (map (\<lambda>r. fst (snd r)) (filter fst rules))
       \<and> sum_list (map (\<lambda>r. fst (snd r)) (filter fst rules))
           \<le> sum_list (map (\<lambda>r. fst (snd r)) rules)"
  using assms by (induction rules) auto

lemma score_rules_points_nonneg:
  "\<forall>r \<in> set (score_rules op so lk tech rs h). (0::int) \<le> fst (snd r)"
  by (simp add: score_rules_def)

lemma score_rules_total:
  "sum_list (map (\<lambda>r. fst (snd r)) (score_rules op so lk tech rs h)) = 63"
  by (simp add: score_rules_def)

lemma run_rules_bounds:
  "37 \<le> fst (run_rules (score_rules op so lk tech rs h))
   \<and> fst (run_rules (score_rules op so lk tech rs h)) \<le> 100"
  using applied_points_bounds [OF score_rules_points_nonneg, of op so lk tech rs h]
  by (simp add: run_rules_def foldl_apply_rule_fst score_rules_total)

lemma score_Inr_cases:
  assumes "score E rep = Inr sc"
  obtains op so lk tech rs h where
    "on_page rep = Some op" "social_structured rep = Some so" "links rep = Some lk"
    "technical rep = Technical tech" "robots_sitemap rep = Some rs"
    "sc = \<lparr>overall = max (fst (run_rules (score_rules op so lk tech rs h))) 0,
           deductions = snd (run_rules (score_rules op so lk tech rs h))\<rparr>"
  using assms
  by (auto simp: score_def bind_result_def Let_def
           split: option.splits technical.splits sum.splits if_splits)

lemma score_worst_report: "score scenario_env worst_report = Inr worst_report_score"
  unfolding worst_report_score_def by code_simp

text \<open>
  C3. Every score the scorer returns has its overall value in the range 0 to 100,
  whatever issues the report holds.
\<close>

theorem score_in_range:
  assumes "score E rep = Inr sc"
  shows "0 \<le> overall sc \<and> overall sc \<le> 100"
proof -
  from assms obtain op so lk tech rs h where
    sc: "sc = \<lparr>overall = max (fst (run_rules (score_rules op so lk tech rs h))) 0,
               deductions = snd (run_rules (score_rules op so lk tech rs h))\<rparr>"
    by (rule score_Inr_cases)
  from run_rules_bounds [of op so lk tech rs h] show ?thesis
    by (simp add: sc)
qed

theorem score_in_range_witness:
  "score scenario_env worst_report = Inr worst_report_score
   \<and> overall worst_report_score = 37
   \<and> 0 \<le> overall worst_report_score \<and> overall worst_report_score \<le> 100"
  using score_in_range [OF score_worst_report] score_worst_report
  by (simp add: worst_report_score_def)

section \<open>The title check\<close>

text \<open>
  C8. For a document whose title is not empty, the title check records the too-short
  issue exactly when the (stripped) title has fewer than 30 characters and the too-long
  issue exactly when it has more than 60.
\<close>

theorem title_length_boundaries:
  assumes "title_tag sp = Some t" and "strip t \<noteq> []"
  shows "(''Title too short (<30 chars)'' \<in> set (issues (snd (fst (check_title sp recs)))))
           = (length (strip t) < 30)
       \<and> (''Title too long (>60 chars)'' \<in> set (issues (snd (fst (check_title sp recs)))))
           = (length (strip t) > 60)
       \<and> info_length (snd (fst (check_title sp recs))) = length (strip t)"
  using assms by (simp add: check_title_def Let_def)

lemma strip_replicate_a: "strip (replicate n CHR ''a'') = replicate n CHR ''a''"
proof -
  have a: "\<not> py_isspace CHR ''a''" by (simp add: py_isspace_def)
  have d: "dropWhile py_isspace (replicate n CHR ''a'') = replicate n CHR ''a''"
    by (cases n) (simp_all add: a)
  show ?thesis by (simp add: strip_def d a)
qed

theorem title_length_boundaries_witness:
  "''Title too short (<30 chars)'' \<in> set (issues (snd (fst (check_title (titled_soup 29) []))))
   \<and> ''Title too short (<30 chars)'' \<notin> set (issues (snd (fst (check_title (titled_soup 30) []))))
   \<and> ''Title too long (>60 chars)'' \<notin> set (issues (snd (fst (check_title (titled_soup 60) []))))
   \<and> ''Title too long (>60 chars)'' \<in> set (issues (snd (fst (check_title (titled_soup 61) []))))"
proof -
  have t: "title_tag (titled_soup n) = Some (replicate n CHR ''a'')" for n
    by (simp add: titled_soup_def)
  have ne: "0 < n \<Longrightarrow> strip (replicate n CHR ''a'') \<noteq> []" for n
    by (simp add: strip_replicate_a)
  show ?thesis
    using title_length_boundaries [OF t ne, of 29 "[]"]
          title_length_boundaries [OF t ne, of 30 "[]"]
          title_length_boundaries [OF t ne, of 60 "[]"]
          title_length_boundaries [OF t ne, of 61 "[]"]
    by (simp add: strip_replicate_a)
qed

section \<open>Structure of an audit run\<close>

lemma bind_result_InrE:
  assumes "bind_result m f = Inr y"
  obtains x where "m = Inr x" and "f x = Inr y"
  using assms by (cases m) (simp_all add: bind_result_def)

lemma bind_result_Inr [simp]: "bind_result (Inr x) f = f x"
  by (simp add: bind_result_def)

lemma bind_result_Inl [simp]: "bind_result (Inl e) f = Inl e"
  by (simp add: bind_result_def)

lemma seo_audit_raised:
  assumes "urlparse E (ensure_url_scheme E (strip raw_url)) = Some p"
    and "requests_get E (ensure_url_scheme E (strip raw_url)) 15 = Inl exc"
  shows "seo_audit E raw_url max_links workers =
           Inr (failure_unreachable (initial_report (ensure_url_scheme E (strip raw_url))) (Some exc),
                \<lparr>requests = [(GET, ensure_url_scheme E (strip raw_url))], pool = None\<rparr>)"
  using assms by (simp add: seo_audit_def fetch_def Let_def)

lemma seo_audit_falsy:
  assumes "urlparse E (ensure_url_scheme E (strip raw_url)) = Some p"
    and "requests_get E (ensure_url_scheme E (strip raw_url)) 15 = Inr resp"
    and "\<not> truthy resp"
  shows "seo_audit E raw_url max_links workers =
           Inr (failure_unreachable (initial_report (ensure_url_scheme E (strip raw_url))) None,
                \<lparr>requests = [(GET, ensure_url_scheme E (strip raw_url))], pool = None\<rparr>)"
  using assms by (simp add: seo_audit_def fetch_def Let_def)

lemma seo_audit_http_error:
  assumes "urlparse E (ensure_url_scheme E (strip raw_url)) = Some p"
    and "requests_get E (ensure_url_scheme E (strip raw_url)) 15 = Inr resp"
    and "truthy resp" and "status_code resp \<ge> 400"
  shows "seo_audit E raw_url max_links workers =
           Inr (failure_http_error (initial_report (ensure_url_scheme E (strip raw_url))) resp
                  (elapsed_ms E (ensure_url_scheme E (strip raw_url))),
                \<lparr>requests = [(GET, ensure_url_scheme E (strip raw_url))], pool = None\<rparr>)"
  using assms by (simp add: seo_audit_def fetch_def Let_def)

lemma seo_audit_full:
  assumes "urlparse E (ensure_url_scheme E (strip raw_url)) = Some p"
    and "requests_get E (ensure_url_scheme E (strip raw_url)) 15 = Inr resp"
    and "truthy resp" and "status_code resp < 400"
  shows "seo_audit E raw_url max_links workers =
           full_audit E (initial_report (ensure_url_scheme E (strip raw_url)))
             (ensure_url_scheme E (strip raw_url)) (scheme p @ ''://'' @ netloc p) resp
             (elapsed_ms E (ensure_url_scheme E (strip raw_url))) max_links workers"
  using assms by (simp add: seo_audit_def fetch_def Let_def)

lemma full_audit_InrE:
  assumes "full_audit E rep0 u base_url resp elapsed max_links workers = Inr (rep, eff)"
  obtains op recs9 so recs10 tech recs11 rs recs12 probe_reqs lk recs13 leff sc where
    "on_page_checks E u (soupify E (body_text resp)) (recommendations rep0) = Inr (op, recs9)"
    "check_social_and_structured E (soupify E (body_text resp)) recs9 = (so, recs10)"
    "check_technical_headers E u resp elapsed recs10 = Inr (tech, recs11)"
    "check_robots_and_sitemap E base_url recs11 = Inr (rs, recs12, probe_reqs)"
    "check_links E u (soupify E (body_text resp)) max_links recs12 workers = Inr (lk, recs13, leff)"
    "score E (assemble rep0 op so tech rs lk recs13) = Inr sc"
    "rep = (assemble rep0 op so tech rs lk recs13)
             \<lparr>score_section := Some sc, analysis_time_ms := Some elapsed,
              workers_used := Some workers\<rparr>"
    "eff = \<lparr>requests = [(GET, u)] @ probe_reqs @ link_requests leff,
            pool = Some (pool_max_workers leff)\<rparr>"
proof -
  let ?sp = "soupify E (body_text resp)"
  from assms obtain x1 where
    a1: "on_page_checks E u ?sp (recommendations rep0) = Inr x1"
    and r1: "(case x1 of (op, recs9) \<Rightarrow>
           (let (so, recs10) = check_social_and_structured E ?sp recs9
            in bind_result (check_technical_headers E u resp elapsed recs10)
               (\<lambda>(tech, recs11).
                 bind_result (check_robots_and_sitemap E base_url recs11)
                   (\<lambda>(rs, recs12, probe_reqs).
                     bind_result (check_links E u ?sp max_links recs12 workers)
                       (\<lambda>(lk, recs13, eff).
                         (let rep1 = assemble rep0 op so tech rs lk recs13
                          in bind_result (score E rep1)
                             (\<lambda>sc. Inr (rep1\<lparr>score_section := Some sc,
                                               analysis_time_ms := Some elapsed,
                                               workers_used := Some workers\<rparr>,
                                         \<lparr>requests = [(GET, u)] @ probe_reqs @ link_requests eff,
                                           pool = Some (pool_max_workers eff)\<rparr>)))))))) = Inr (rep, eff)"
    unfolding full_audit_def Let_def by (erule bind_result_InrE)
  obtain op recs9 where x1: "x1 = (op, recs9)" by (cases x1)
  obtain so recs10 where a2: "check_social_and_structured E ?sp recs9 = (so, recs10)"
    by (cases "check_social_and_structured E ?sp recs9")
  from r1 obtain x3 where a3: "check_technical_headers E u resp elapsed recs10 = Inr x3"
    and r3: "(case x3 of (tech, recs11) \<Rightarrow>
                 bind_result (check_robots_and_sitemap E base_url recs11)
                   (\<lambda>(rs, recs12, probe_reqs).
                     bind_result (check_links E u ?sp max_links recs12 workers)
                       (\<lambda>(lk, recs13, eff).
                         (let rep1 = assemble rep0 op so tech rs lk recs13
                          in bind_result (score E rep1)
                             (\<lambda>sc. Inr (rep1\<lparr>score_section := Some sc,
                                               analysis_time_ms := Some elapsed,
                                               workers_used := Some workers\<rparr>,
                                         \<lparr>requests = [(GET, u)] @ probe_reqs @ link_requests eff,
                                           pool = Some (pool_max_workers eff)\<rparr>)))))) = Inr (rep, eff)"
    unfolding x1 by (simp add: a2) (erule bind_result_InrE)
  obtain tech recs11 where x3: "x3 = (tech, recs11)" by (cases x3)
  from r3 obtain x4 where a4: "check_robots_and_sitemap E base_url recs11 = Inr x4"
    and r4: "(case x4 of (rs, recs12, probe_reqs) \<Rightarrow>
                     bind_result (check_links E u ?sp max_links recs12 workers)
                       (\<lambda>(lk, recs13, eff).
                         (let rep1 = assemble rep0 op so tech rs lk recs13
                          in bind_result (score E rep1)
                             (\<lambda>sc. Inr (rep1\<lparr>score_section := Some sc,
                                               analysis_time_ms := Some elapsed,
                                               workers_used := Some workers\<rparr>,
                                         \<lparr>requests = [(GET, u)] @ probe_reqs @ link_requests eff,
                                           pool = Some (pool_max_workers eff)\<rparr>))))) = Inr (rep, eff)"
    unfolding x3 by simp (erule bind_result_InrE)
  obtain rs recs12 probe_reqs where x4: "x4 = (rs, recs12, probe_reqs)" by (cases x4)
  from r4 obtain x5 where a5: "check_links E u ?sp max_links recs12 workers = Inr x5"
    and r5: "(case x5 of (lk, recs13, eff) \<Rightarrow>
                         (let rep1 = assemble rep0 op so tech rs lk recs13
                          in bind_result (score E rep1)
                             (\<lambda>sc. Inr (rep1\<lparr>score_section := Some sc,
                                               analysis_time_ms := Some elapsed,
                                               workers_used := Some workers\<rparr>,
                                         \<lparr>requests = [(GET, u)] @ probe_reqs @ link_requests eff,
                                           pool = Some (pool_max_workers eff)\<rparr>)))) = Inr (rep, eff)"
    unfolding x4 by simp (erule bind_result_InrE)
  obtain lk recs13 leff where x5: "x5 = (lk, recs13, leff)" by (cases x5)
  from r5 obtain sc where a6: "score E (assemble rep0 op so tech rs lk recs13) = Inr sc"
    and e: "rep = (assemble rep0 op so tech rs lk recs13)
             \<lparr>score_section := Some sc, analysis_time_ms := Some elapsed,
              workers_used := Some workers\<rparr>"
      "eff = \<lparr>requests = [(GET, u)] @ probe_reqs @ link_requests leff,
            pool = Some (pool_max_workers leff)\<rparr>"
    unfolding x5 by (simp add: Let_def) (erule bind_result_InrE, auto)
  show thesis
    using that [OF a1 [unfolded x1] a2 a3 [unfolded x3] a4 [unfolded x4] a5 [unfolded x5] a6 e] .
qed

lemma check_links_Inr:
  assumes "check_links E base_url sp max_links recs workers = Inr (lk, recs', leff)"
  shows "0 < workers \<and> pool_max_workers leff = workers"
proof (cases "workers \<le> 0")
  case True
  with assms show ?thesis by (simp add: check_links_def Let_def split_def)
next
  case False
  with assms show ?thesis by (auto simp add: check_links_def Let_def split_def)
qed

lemma check_links_returns:
  assumes "0 < workers"
  shows "\<exists>r. check_links E base_url sp max_links recs workers = Inr r"
  using assms by (simp add: check_links_def Let_def split_def)

lemma netloc_of_returns: "urlparse E x \<noteq> None \<Longrightarrow> \<exists>n. netloc_of E x = Inr n"
  by (auto simp: netloc_of_def)

lemma scheme_of_returns: "urlparse E x \<noteq> None \<Longrightarrow> \<exists>n. scheme_of E x = Inr n"
  by (auto simp: scheme_of_def)

lemma check_canonical_returns:
  assumes "\<And>x. urlparse E x \<noteq> None"
  shows "\<exists>r. check_canonical E u sp recs = Inr r"
proof -
  have n: "\<exists>n. netloc_of E x = Inr n" for x
    using assms by (rule netloc_of_returns)
  show ?thesis
  proof (cases "canonical_link sp")
    case None
    then show ?thesis by (simp add: check_canonical_def)
  next
    case (Some a)
    show ?thesis
    proof (cases a)
      case None
      with Some show ?thesis by (simp add: check_canonical_def)
    next
      case (Some h)
      obtain n1 where n1: "netloc_of E (absolute_url E u h) = Inr n1" using n by blast
      obtain n2 where n2: "netloc_of E (absolute_url E u []) = Inr n2" using n by blast
      from \<open>canonical_link sp = Some a\<close> Some n1 n2 show ?thesis
        by (simp add: check_canonical_def Let_def)
    qed
  qed
qed

lemma on_page_checks_returns:
  assumes "\<And>x. urlparse E x \<noteq> None"
  shows "\<exists>r. on_page_checks E u sp recs = Inr r"
proof -
  obtain r where "check_canonical E u sp
      (snd (check_images sp (snd (check_h1 sp (snd (check_meta_description sp (snd (check_title sp recs)))))))) = Inr r"
    using check_canonical_returns [OF assms] by blast
  then show ?thesis
    by (simp add: on_page_checks_def Let_def split_def)
qed

lemma check_technical_headers_returns:
  assumes "urlparse E u \<noteq> None" and "content_length_parses E resp"
  shows "\<exists>r. check_technical_headers E u resp elapsed recs = Inr r"
proof -
  obtain sch where s: "scheme_of E u = Inr sch"
    using scheme_of_returns [OF assms(1)] by blast
  show ?thesis
  proof (cases "header_dict (headers resp) ''content-length''")
    case None
    then show ?thesis by (simp add: check_technical_headers_def Let_def s)
  next
    case (Some v)
    show ?thesis
    proof (cases "v = []")
      case True
      with Some show ?thesis by (simp add: check_technical_headers_def Let_def s)
    next
      case False
      with Some assms(2) obtain n where "py_int E v = Some n"
        by (auto simp: content_length_parses_def)
      with Some False show ?thesis by (simp add: check_technical_headers_def Let_def s)
    qed
  qed
qed

lemma check_robots_and_sitemap_returns:
  assumes "\<And>b r. urljoin E b r \<noteq> None"
  shows "\<exists>r. check_robots_and_sitemap E base_url recs = Inr r"
proof -
  obtain ru where ru: "urljoin E base_url ''/robots.txt'' = Some ru"
    using assms [of base_url "''/robots.txt''"] by auto
  obtain su where su: "urljoin E base_url ''/sitemap.xml'' = Some su"
    using assms [of base_url "''/sitemap.xml''"] by auto
  show ?thesis
    by (simp add: check_robots_and_sitemap_def ru su Let_def split_def)
qed

lemma score_assembled_returns:
  assumes "urlparse E (url rep0) \<noteq> None"
  shows "\<exists>sc. score E (assemble rep0 op so tech rs lk recs) = Inr sc"
proof -
  obtain sch where s: "scheme_of E (url rep0) = Inr sch"
    using scheme_of_returns [OF assms] by blast
  show ?thesis
    by (simp add: score_def assemble_def s Let_def)
qed

lemma full_audit_returns:
  assumes total: "\<And>x. urlparse E x \<noteq> None" "\<And>b r. urljoin E b r \<noteq> None"
    and cl: "content_length_parses E resp" and w: "0 < workers"
  shows "\<exists>rep eff. full_audit E rep0 u base_url resp elapsed max_links workers = Inr (rep, eff)"
proof -
  let ?sp = "soupify E (body_text resp)"
  obtain op recs9 where a1: "on_page_checks E u ?sp (recommendations rep0) = Inr (op, recs9)"
    using on_page_checks_returns [OF total(1)] by (metis surj_pair)
  obtain so recs10 where a2: "check_social_and_structured E ?sp recs9 = (so, recs10)"
    by (cases "check_social_and_structured E ?sp recs9")
  obtain tech recs11 where a3: "check_technical_headers E u resp elapsed recs10 = Inr (tech, recs11)"
    using check_technical_headers_returns [OF total(1) cl] by (metis surj_pair)
  obtain rs recs12 probe_reqs where
    a4: "check_robots_and_sitemap E base_url recs11 = Inr (rs, recs12, probe_reqs)"
    using check_robots_and_sitemap_returns [OF total(2)] by (metis surj_pair)
  obtain lk recs13 leff where
    a5: "check_links E u ?sp max_links recs12 workers = Inr (lk, recs13, leff)"
    using check_links_returns [OF w] by (metis surj_pair)
  obtain sc where a6: "score E (assemble rep0 op so tech rs lk recs13) = Inr sc"
    using score_assembled_returns [OF total(1)] by blast
  show ?thesis
    by (simp add: full_audit_def Let_def a1 a2 a3 a4 a5 a6)
qed

lemma sample_urlparse_total: "urlparse (sample_env sp gets heads) x \<noteq> None"
  by (simp add: sample_env_def sample_urlparse_def)

lemma sample_urljoin_total: "urljoin (sample_env sp gets heads) b r \<noteq> None"
  by (simp add: sample_env_def sample_urljoin_def Let_def split_def)

lemma scenario_url: "ensure_url_scheme scenario_env (strip ''example.com'') = ''https://example.com''"
  by code_simp

lemma scenario_parsed:
  "urlparse scenario_env ''https://example.com'' = Some \<lparr>scheme = ''https'', netloc = ''example.com''\<rparr>"
  by code_simp

lemma scenario_get:
  "requests_get scenario_env ''https://example.com'' 15
     = Inr (sample_response 200 scenario_headers ''<html>'')"
  by code_simp

lemma scenario_content_length:
  "content_length_parses scenario_env (sample_response 200 scenario_headers ''<html>'')"
  by code_simp

lemma seo_audit_InrE:
  assumes "seo_audit E raw_url max_links workers = Inr (rep, eff)"
  obtains (failed) "short_circuit E raw_url" "pool eff = None"
      "requests eff = [(GET, ensure_url_scheme E (strip raw_url))]"
      "\<exists>d. score_section rep = Some \<lparr>overall = 0, deductions = [d]\<rparr>"
  | (full) p resp where "\<not> short_circuit E raw_url"
      "urlparse E (ensure_url_scheme E (strip raw_url)) = Some p"
      "requests_get E (ensure_url_scheme E (strip raw_url)) 15 = Inr resp"
      "full_audit E (initial_report (ensure_url_scheme E (strip raw_url)))
             (ensure_url_scheme E (strip raw_url)) (scheme p @ ''://'' @ netloc p) resp
             (elapsed_ms E (ensure_url_scheme E (strip raw_url))) max_links workers = Inr (rep, eff)"
proof -
  let ?u = "ensure_url_scheme E (strip raw_url)"
  from assms obtain p where p: "urlparse E ?u = Some p"
    by (auto simp: seo_audit_def Let_def split: option.splits)
  show thesis
  proof (cases "requests_get E ?u 15")
    case (Inl exc)
    from assms seo_audit_raised [OF p Inl, of max_links workers] show thesis
      by (intro failed) (auto simp: short_circuit_def Inl failure_unreachable_def)
  next
    case (Inr resp)
    show thesis
    proof (cases "truthy resp")
      case False
      from assms seo_audit_falsy [OF p Inr False, of max_links workers] show thesis
        by (intro failed) (auto simp: short_circuit_def Inr False failure_unreachable_def)
    next
      case True
      show thesis
      proof (cases "status_code resp \<ge> 400")
        case h: True
        from assms seo_audit_http_error [OF p Inr True h, of max_links workers] h show thesis
          by (intro failed) (auto simp: short_circuit_def Inr failure_http_error_def)
      next
        case h: False
        then have lt: "status_code resp < 400" by simp
        from assms seo_audit_full [OF p Inr True lt, of max_links workers] h True show thesis
          by (intro full [OF _ p Inr]) (auto simp: short_circuit_def Inr)
      qed
    qed
  qed
qed

lemma seo_audit_pool:
  assumes "seo_audit E raw_url max_links workers = Inr (rep, eff)"
  shows "pool eff = None \<or> (pool eff = Some workers \<and> 0 < workers)"
  using assms
proof (cases rule: seo_audit_InrE)
  case failed
  then show ?thesis by simp
next
  case (full p resp)
  from full(4) show ?thesis
  proof (rule full_audit_InrE)
    fix op recs9 so recs10 tech recs11 rs recs12 probe_reqs lk recs13 leff sc
    assume "check_links E (ensure_url_scheme E (strip raw_url))
              (soupify E (body_text resp)) max_links recs12 workers = Inr (lk, recs13, leff)"
      and "eff = \<lparr>requests = [(GET, ensure_url_scheme E (strip raw_url))] @ probe_reqs @ link_requests leff,
            pool = Some (pool_max_workers leff)\<rparr>"
    then show ?thesis using check_links_Inr by fastforce
  qed
qed

lemma scenario_audit_returns:
  assumes "0 < workers"
  shows "\<exists>rep eff. seo_audit scenario_env ''example.com'' max_links workers = Inr (rep, eff)
           \<and> pool eff = Some workers"
proof -
  have nsc: "\<not> short_circuit scenario_env ''example.com''"
    by (simp add: short_circuit_def scenario_url scenario_get sample_response_def)
  have t: "truthy (sample_response 200 scenario_headers ''<html>'')"
          "status_code (sample_response 200 scenario_headers ''<html>'') < 400"
    by (simp_all add: sample_response_def)
  have tot: "\<And>x. urlparse scenario_env x \<noteq> None" "\<And>b r. urljoin scenario_env b r \<noteq> None"
    unfolding scenario_env_def by (rule sample_urlparse_total, rule sample_urljoin_total)
  obtain rep eff where
    r: "seo_audit scenario_env ''example.com'' max_links workers = Inr (rep, eff)"
    using full_audit_returns [OF tot scenario_content_length assms]
      seo_audit_full [of scenario_env "''example.com''", unfolded scenario_url,
                      OF scenario_parsed scenario_get t]
    by metis
  from r show ?thesis
  proof (cases rule: seo_audit_InrE)
    case failed
    with nsc show ?thesis by simp
  next
    case (full p resp)
    with seo_audit_pool [OF r] r show ?thesis
      apply (auto elim!: full_audit_InrE)
      done
  qed
qed

section \<open>The worker pool\<close>

text \<open>
  C7 (amended). The engine creates the worker pool with exactly the worker count it is
  given; the cap at 20 is applied by its callers, the command line and the two web
  routes, before they call the engine. A pool they cause has at most 20 workers.
\<close>

theorem worker_cap_in_callers:
  "(seo_audit E u m w = Inr (rep, eff) \<longrightarrow> pool eff = None \<or> pool eff = Some w)
   \<and> (main_audit E u m fast w = Inr (rep, eff)
        \<longrightarrow> (pool eff = None \<or> pool eff = Some (min w 20)) \<and> (\<forall>n. pool eff = Some n \<longrightarrow> n \<le> 20))
   \<and> (web_audit E u m fast w = Inr (rep, eff)
        \<longrightarrow> (pool eff = None \<or> pool eff = Some (min w 20)) \<and> (\<forall>n. pool eff = Some n \<longrightarrow> n \<le> 20))"
proof (intro conjI impI)
  assume "seo_audit E u m w = Inr (rep, eff)"
  from seo_audit_pool [OF this] show "pool eff = None \<or> pool eff = Some w" by blast
next
  assume "main_audit E u m fast w = Inr (rep, eff)"
  then have a: "seo_audit E u (if fast then 0 else m) (min w 20) = Inr (rep, eff)"
    by (simp add: main_audit_def Let_def)
  from seo_audit_pool [OF a] show "pool eff = None \<or> pool eff = Some (min w 20)" by blast
  from seo_audit_pool [OF a] show "\<forall>n. pool eff = Some n \<longrightarrow> n \<le> 20" by auto
next
  assume "web_audit E u m fast w = Inr (rep, eff)"
  then have a: "seo_audit E (strip u) (if fast then 0 else m) (min w 20) = Inr (rep, eff)"
    by (simp add: web_audit_def Let_def)
  from seo_audit_pool [OF a] show "pool eff = None \<or> pool eff = Some (min w 20)" by blast
  from seo_audit_pool [OF a] show "\<forall>n. pool eff = Some n \<longrightarrow> n \<le> 20" by auto
qed

lemma strip_example: "strip ''example.com'' = ''example.com''"
  by code_simp

theorem worker_cap_in_callers_witness:
  "map_sum id (\<lambda>x. pool (snd x)) (seo_audit scenario_env ''example.com'' 25 7) = Inr (Some 7)
   \<and> map_sum id (\<lambda>x. pool (snd x)) (main_audit scenario_env ''example.com'' 25 False 50) = Inr (Some 20)
   \<and> map_sum id (\<lambda>x. pool (snd x)) (web_audit scenario_env ''example.com'' 25 False 50) = Inr (Some 20)"
proof -
  obtain rep7 eff7 where
    a7: "seo_audit scenario_env ''example.com'' 25 7 = Inr (rep7, eff7)" and p7: "pool eff7 \<noteq> None"
    using scenario_audit_returns [of 7 25] by auto
  obtain rep eff where
    a: "seo_audit scenario_env ''example.com'' 25 20 = Inr (rep, eff)" and p: "pool eff \<noteq> None"
    using scenario_audit_returns [of 20 25] by auto
  have m: "main_audit scenario_env ''example.com'' 25 False 50 = Inr (rep, eff)"
    by (simp add: main_audit_def a)
  have w: "web_audit scenario_env ''example.com'' 25 False 50 = Inr (rep, eff)"
    by (simp add: web_audit_def strip_example a)
  from worker_cap_in_callers [of scenario_env "''example.com''" 25 7 rep7 eff7] a7 p7
  have "pool eff7 = Some 7" by simp
  moreover from worker_cap_in_callers [of scenario_env "''example.com''" 25 50 rep eff False] m w p
  have "pool eff = Some 20" by simp
  ultimately show ?thesis by (simp add: a7 m w)
qed

theorem engine_pool_exceeds_20_counterexample:
  "map_sum id (\<lambda>x. pool (snd x)) (seo_audit scenario_env ''example.com'' 25 50) = Inr (Some 50)
   \<and> \<not> (50 \<le> (20::int))"
proof -
  obtain rep eff where
    a: "seo_audit scenario_env ''example.com'' 25 50 = Inr (rep, eff)" and p: "pool eff = Some 50"
    using scenario_audit_returns [of 50 25] by auto
  then show ?thesis by simp
qed

section \<open>Failure reports\<close>

lemma unreachable_url:
  "ensure_url_scheme unreachable_env (strip ''example.com'') = ''https://example.com''"
  by code_simp

lemma unreachable_parsed:
  "urlparse unreachable_env ''https://example.com''
     = Some \<lparr>scheme = ''https'', netloc = ''example.com''\<rparr>"
  by code_simp

lemma unreachable_get:
  "requests_get unreachable_env ''https://example.com'' 15 = Inl ''connection refused''"
  by code_simp

lemma http_error_url:
  "ensure_url_scheme (http_error_env r) (strip ''example.com'') = ''https://example.com''"
  unfolding http_error_env_def sample_env_def by code_simp

lemma http_error_parsed:
  "urlparse (http_error_env r) ''https://example.com''
     = Some \<lparr>scheme = ''https'', netloc = ''example.com''\<rparr>"
  unfolding http_error_env_def sample_env_def by code_simp

lemma http_error_get: "requests_get (http_error_env r) ''https://example.com'' 15 = Inr r"
  by (simp add: http_error_env_def sample_env_def)

text \<open>
  With the truthiness of \<open>requests\<close> (\<open>bool(response)\<close> is \<open>response.ok\<close>, false for the
  statuses 400 to 599), a response with such a status is caught by \<open>if not response\<close>,
  the test of the fetch-level return, with \<open>err\<close> being \<open>None\<close>; the HTTP-error return
  after it is not reached.
\<close>

lemma http_4xx_5xx_takes_unreachable_return:
  assumes "urlparse E (ensure_url_scheme E (strip raw_url)) = Some p"
    and "requests_get E (ensure_url_scheme E (strip raw_url)) 15 = Inr resp"
    and "truthy resp = (\<not> (400 \<le> status_code resp \<and> status_code resp < 600))"
    and "400 \<le> status_code resp" and "status_code resp < 600"
  shows "seo_audit E raw_url max_links workers =
           Inr (failure_unreachable (initial_report (ensure_url_scheme E (strip raw_url))) None,
                \<lparr>requests = [(GET, ensure_url_scheme E (strip raw_url))], pool = None\<rparr>)"
  using assms seo_audit_falsy [OF assms(1) assms(2), of max_links workers] by simp

text \<open>
  C2. The claim: a page that answers with a status of 400 or more gives a report whose
  technical section carries the status code, with a recommendation describing the
  failure. The code at a page that answers 404: the report is the one of an
  unreachable site. Its technical section is \<open>{"error": None}\<close>, its recommendation is
  \<open>Could not fetch website: None\<close>, its deduction is \<open>Critical: site unreachable\<close>; the
  status code is nowhere in it.
\<close>

theorem http_404_reported_as_unreachable:
  "status_code (sample_response 404 [] []) = 404
   \<and> map_sum id (\<lambda>x. (technical (fst x), recommendations (fst x), score_section (fst x),
                       on_page (fst x), links (fst x)))
        (seo_audit (http_error_env (sample_response 404 [] [])) ''example.com'' 25 10)
      = Inr (TechError None, [''Could not fetch website: None''],
             Some \<lparr>overall = 0, deductions = [''Critical: site unreachable'']\<rparr>, None, None)
   \<and> map_sum id (\<lambda>x. technical_keys (technical (fst x)))
        (seo_audit (http_error_env (sample_response 404 [] [])) ''example.com'' 25 10)
      = Inr [''error'']"
proof -
  let ?r = "sample_response 404 [] []"
  have f: "\<not> truthy ?r" "status_code ?r = 404"
    by (simp_all add: sample_response_def)
  have a: "seo_audit (http_error_env ?r) ''example.com'' 25 10
             = Inr (failure_unreachable (initial_report ''https://example.com'') None,
                    \<lparr>requests = [(GET, ''https://example.com'')], pool = None\<rparr>)"
    using seo_audit_falsy [of "http_error_env ?r" "''example.com''", unfolded http_error_url,
                           OF http_error_parsed http_error_get f(1)] .
  show ?thesis
    unfolding a
    by (simp add: failure_unreachable_def initial_report_def technical_keys_def f(2))
qed

section \<open>The floor of the scorer\<close>

text \<open>
  C10. The deductions of the scorer's table sum to 63, so the score before the clamp is
  at least 37 and \<open>max(score, 0)\<close> changes nothing; every report of a run that did not
  take an early return has an overall score between 37 and 100, and an overall score
  of 0 arises only from the early returns.
\<close>

theorem full_report_score_at_least_37:
  assumes "seo_audit E raw_url max_links workers = Inr (rep, eff)"
  shows "sum_list (map (\<lambda>r. fst (snd r)) (score_rules op so lk tech rs h)) = 63
       \<and> max (fst (run_rules (score_rules op so lk tech rs h))) 0
           = fst (run_rules (score_rules op so lk tech rs h))
       \<and> (\<exists>sc. score_section rep = Some sc
             \<and> (short_circuit E raw_url \<longrightarrow> overall sc = 0)
             \<and> (\<not> short_circuit E raw_url \<longrightarrow> 37 \<le> overall sc \<and> overall sc \<le> 100)
             \<and> (overall sc = 0 \<longrightarrow> short_circuit E raw_url))"
proof -
  have "\<exists>sc. score_section rep = Some sc
             \<and> (short_circuit E raw_url \<longrightarrow> overall sc = 0)
             \<and> (\<not> short_circuit E raw_url \<longrightarrow> 37 \<le> overall sc \<and> overall sc \<le> 100)
             \<and> (overall sc = 0 \<longrightarrow> short_circuit E raw_url)"
    using assms
  proof (cases rule: seo_audit_InrE)
    case failed
    then show ?thesis by auto
  next
    case (full p resp)
    from full(4) show ?thesis
    proof (rule full_audit_InrE)
      fix op' recs9 so' recs10 tech' recs11 rs' recs12 probe_reqs lk' recs13 leff sc
      let ?a = "assemble (initial_report (ensure_url_scheme E (strip raw_url))) op' so' tech' rs' lk' recs13"
      assume sc: "score E ?a = Inr sc"
        and rep: "rep = ?a\<lparr>score_section := Some sc,
                   analysis_time_ms := Some (elapsed_ms E (ensure_url_scheme E (strip raw_url))),
                   workers_used := Some workers\<rparr>"
      from sc obtain a b c d e f where
        "sc = \<lparr>overall = max (fst (run_rules (score_rules a b c d e f))) 0,
               deductions = snd (run_rules (score_rules a b c d e f))\<rparr>"
        by (rule score_Inr_cases)
      with run_rules_bounds [of a b c d e f] have "37 \<le> overall sc \<and> overall sc \<le> 100"
        by simp
      with full(1) rep show ?thesis by simp
    qed
  qed
  with run_rules_bounds [of op so lk tech rs h] score_rules_total [of op so lk tech rs h]
  show ?thesis by simp
qed

lemma unreachable_short_circuit: "short_circuit unreachable_env ''example.com''"
  by (simp add: short_circuit_def unreachable_url unreachable_get)

lemma scenario_not_short_circuit: "\<not> short_circuit scenario_env ''example.com''"
  by (simp add: short_circuit_def scenario_url scenario_get sample_response_def)

theorem full_report_score_at_least_37_witness:
  "\<not> short_circuit scenario_env ''example.com''
   \<and> (\<exists>rep eff sc. seo_audit scenario_env ''example.com'' 25 10 = Inr (rep, eff)
          \<and> score_section rep = Some sc \<and> 37 \<le> overall sc \<and> overall sc \<le> 100)
   \<and> short_circuit unreachable_env ''example.com''
   \<and> (\<exists>rep eff sc. seo_audit unreachable_env ''example.com'' 25 10 = Inr (rep, eff)
          \<and> score_section rep = Some sc \<and> overall sc = 0)"
proof -
  obtain rep eff where a: "seo_audit scenario_env ''example.com'' 25 10 = Inr (rep, eff)"
    using scenario_audit_returns [of 10 25] by auto
  have b: "seo_audit unreachable_env ''example.com'' 25 10
             = Inr (failure_unreachable (initial_report ''https://example.com'') (Some ''connection refused''),
                    \<lparr>requests = [(GET, ''https://example.com'')], pool = None\<rparr>)"
    using seo_audit_raised [of unreachable_env "''example.com''", unfolded unreachable_url,
                            OF unreachable_parsed unreachable_get] .
  from full_report_score_at_least_37 [OF a] scenario_not_short_circuit
  have c1: "\<exists>sc. score_section rep = Some sc \<and> 37 \<le> overall sc \<and> overall sc \<le> 100"
    by blast
  from full_report_score_at_least_37 [OF b] unreachable_short_circuit
  have c2: "\<exists>sc. score_section (failure_unreachable (initial_report ''https://example.com'')
                      (Some ''connection refused'')) = Some sc \<and> overall sc = 0"
    by blast
  from a b c1 c2 scenario_not_short_circuit unreachable_short_circuit show ?thesis
    by auto
qed

section \<open>Link sampling and validation: budget, recommendations, recovery\<close>












lemma completion_order_Nil [simp]: "completion_order pk k [] = []"
  by (subst completion_order.simps) simp





lemma check_links_result:
  assumes "0 < workers"
  shows "check_links E base_url sp max_links recs workers =
     Inr (\<lparr>broken_internal = take 10 (broken_internal (fst (validate_links E base_url (selected_links E sp max_links)))),
           broken_external = take 10 (broken_external (fst (validate_links E base_url (selected_links E sp max_links)))),
           redirects = take 10 (redirects (fst (validate_links E base_url (selected_links E sp max_links)))),
           internal_count = length (unique (fst (smart_link_sampling E sp max_links))),
           external_count = length (unique (snd (smart_link_sampling E sp max_links)))\<rparr>,
          recs
          @ (if broken_internal (fst (validate_links E base_url (selected_links E sp max_links))) \<noteq> []
             then [str_nat (length (broken_internal (fst (validate_links E base_url (selected_links E sp max_links)))))
                   @ '' internal links appear broken.''] else [])
          @ (if redirects (fst (validate_links E base_url (selected_links E sp max_links))) \<noteq> []
             then [str_nat (length (redirects (fst (validate_links E base_url (selected_links E sp max_links)))))
                   @ '' links redirect; update to final URLs where possible.''] else []),
          \<lparr>pool_max_workers = workers,
           link_requests = snd (validate_links E base_url (selected_links E sp max_links))\<rparr>)"
  using assms by (simp add: check_links_def Let_def split_def selected_links_def)


text \<open>
  C5 (amended). After link validation, a non-empty broken-internal bucket and a
  non-empty redirects bucket each append exactly one recommendation, in this order,
  carrying the full size of the bucket, while the reported lists are the first 10
  entries; the broken-external bucket appends no recommendation.
\<close>

theorem link_recommendations:
  assumes "check_links E base_url sp max_links recs workers = Inr (lk, recs', leff)"
  shows "recs' = recs
          @ (if broken_internal (fst (validate_links E base_url (selected_links E sp max_links))) \<noteq> []
             then [str_nat (length (broken_internal (fst (validate_links E base_url (selected_links E sp max_links)))))
                   @ '' internal links appear broken.''] else [])
          @ (if redirects (fst (validate_links E base_url (selected_links E sp max_links))) \<noteq> []
             then [str_nat (length (redirects (fst (validate_links E base_url (selected_links E sp max_links)))))
                   @ '' links redirect; update to final URLs where possible.''] else [])
       \<and> broken_internal lk = take 10 (broken_internal (fst (validate_links E base_url (selected_links E sp max_links))))
       \<and> broken_external lk = take 10 (broken_external (fst (validate_links E base_url (selected_links E sp max_links))))
       \<and> redirects lk = take 10 (redirects (fst (validate_links E base_url (selected_links E sp max_links))))"
proof -
  from assms have "0 < workers" using check_links_Inr by blast
  from assms [unfolded check_links_result [OF this]] show ?thesis by auto
qed









section \<open>The end-to-end scenario\<close>




lemma str_nat_1: "str_nat (Suc 0) = ''1''"
  by code_simp



















section \<open>Concrete link runs\<close>

text \<open>
  C1. The claim: the list a sampled link enters is decided by comparing the host of the
  resolved href with the host of the audited page. The code: \<open>sampled_as_internal\<close>
  compares with the host of \<open>https://placeholder.com\<close>. On the page
  \<open>https://example.com\<close>, the link \<open>https://example.com/about\<close> has the host of the page
  (\<open>is_internal\<close> against the page holds, as the validation loop computes it) and is
  sampled into the external list; a link to \<open>https://placeholder.com/x\<close> is sampled as
  internal although its host is not the page's.
\<close>

theorem sampling_classifies_against_placeholder:
  "smart_link_sampling scenario_env scenario_soup 25
     = ([], [''https://example.com/about'', ''https://partner.example.org/''])
   \<and> is_internal scenario_env ''https://example.com'' ''https://example.com/about''
   \<and> sampled_as_internal scenario_env ''https://placeholder.com/x''
   \<and> \<not> is_internal scenario_env ''https://example.com'' ''https://placeholder.com/x''"
  by code_simp



lemma broken_links_buckets:
  "fst (validate_links broken_links_env ''https://example.com''
          (selected_links broken_links_env broken_links_soup 25))
   = \<lparr>broken_internal = [(''https://example.com/old'', 0)],
      broken_external = [(''https://partner.example.org/gone'', 0)],
      redirects = [(''https://example.com/moved'', 301)]\<rparr>"
  by code_simp

theorem link_recommendations_witness:
  "map_sum id (\<lambda>x. (fst (snd x), broken_internal (fst x), broken_external (fst x),
                      redirects (fst x)))
     (check_links broken_links_env ''https://example.com'' broken_links_soup 25 [] 10)
   = Inr ([''1 internal links appear broken.'',
           ''1 links redirect; update to final URLs where possible.''],
          [(''https://example.com/old'', 0)],
          [(''https://partner.example.org/gone'', 0)],
          [(''https://example.com/moved'', 301)])"
proof -
  obtain lk recs' leff where
    c: "check_links broken_links_env ''https://example.com'' broken_links_soup 25 [] 10
          = Inr (lk, recs', leff)"
    using check_links_returns [of 10 broken_links_env "''https://example.com''" broken_links_soup 25 "[]"]
    by (metis less_numeral_extra(3) not_numeral_less_zero surj_pair zero_less_numeral)
  from link_recommendations [OF c] show ?thesis
    by (simp add: c broken_links_buckets str_nat_1 del: str_nat.simps)
qed

theorem broken_external_without_recommendation_counterexample:
  "check_links partner_down_env ''https://example.com'' scenario_soup 25 [] 10
   = Inr (\<lparr>broken_internal = [], broken_external = [(''https://partner.example.org/'', 0)],
           redirects = [], internal_count = 0, external_count = 2\<rparr>,
          [],
          \<lparr>pool_max_workers = 10,
           link_requests = [(HEAD, ''https://example.com/about''),
                            (HEAD, ''https://partner.example.org/'')]\<rparr>)"
  by code_simp


end
